theory Spec2Isabelle
  imports Complex_Main "HOL-Library.Sublist"
begin

section \<open>Python values\<close>

subsection \<open>Strings\<close>

text \<open>
  A Python \<^verbatim>\<open>str\<close> is a sequence of Unicode code points, modelled as a list of naturals.
  A \<^verbatim>\<open>bytes\<close> value (a raw line of the HTTP body) is an Isabelle \<^typ>\<open>string\<close>, whose characters
  are bytes. \<open>ustr\<close> writes an ASCII literal of the source as a \<^verbatim>\<open>str\<close>.
\<close>

type_synonym pystr = "nat list"

definition ustr :: "string \<Rightarrow> pystr" where
  "ustr = map of_char"

text \<open>\<^verbatim>\<open>str.isspace\<close> of one code point: the whitespace table of CPython.\<close>

definition isspace :: "nat \<Rightarrow> bool" where
  "isspace c \<longleftrightarrow>
     (0x09 \<le> c \<and> c \<le> 0x0D) \<or> (0x1C \<le> c \<and> c \<le> 0x20) \<or> c = 0x85 \<or> c = 0xA0 \<or>
     c = 0x1680 \<or> (0x2000 \<le> c \<and> c \<le> 0x200A) \<or> c = 0x2028 \<or> c = 0x2029 \<or>
     c = 0x202F \<or> c = 0x205F \<or> c = 0x3000"

text \<open>\<^verbatim>\<open>s.lstrip(chars)\<close>, and \<^verbatim>\<open>s.strip()\<close> with no argument (whitespace on both sides).\<close>

definition lstrip_chars :: "pystr \<Rightarrow> pystr \<Rightarrow> pystr" where
  "lstrip_chars chars s = dropWhile (\<lambda>c. c \<in> set chars) s"

definition lstrip :: "pystr \<Rightarrow> pystr" where
  "lstrip s = dropWhile isspace s"

definition rstrip :: "pystr \<Rightarrow> pystr" where
  "rstrip s = rev (dropWhile isspace (rev s))"

definition strip :: "pystr \<Rightarrow> pystr" where
  "strip s = rstrip (lstrip s)"

text \<open>\<^verbatim>\<open>s.startswith(p)\<close> and the substring test \<^verbatim>\<open>p in s\<close>.\<close>

definition startswith :: "pystr \<Rightarrow> pystr \<Rightarrow> bool" where
  "startswith s p = prefix p s"

definition str_contains :: "pystr \<Rightarrow> pystr \<Rightarrow> bool" where
  "str_contains p s = sublist p s"

text \<open>\<^verbatim>\<open>s.split(sep)\<close> for a one-character separator, and \<^verbatim>\<open>sep.join(parts)\<close>.\<close>

fun split :: "nat \<Rightarrow> pystr \<Rightarrow> pystr list" where
  "split sep [] = [[]]"
| "split sep (c # cs) =
     (if c = sep then [] # split sep cs
      else (case split sep cs of
              [] \<Rightarrow> [[c]]
            | l # ls \<Rightarrow> (c # l) # ls))"

fun join :: "pystr \<Rightarrow> pystr list \<Rightarrow> pystr" where
  "join sep [] = []"
| "join sep [x] = x"
| "join sep (x # y # ys) = x @ sep @ join sep (y # ys)"

text \<open>
  \<^verbatim>\<open>s.lower()\<close>. On a string of ASCII characters it maps \<open>A\<close>..\<open>Z\<close> to \<open>a\<close>..\<open>z\<close>. On any
  other string it follows the Unicode case tables, which are not part of the repository:
  they are the parameter \<open>unicode_lower\<close>.
\<close>

definition ascii_lower :: "nat \<Rightarrow> nat" where
  "ascii_lower c = (if 0x41 \<le> c \<and> c \<le> 0x5A then c + 0x20 else c)"

definition lower :: "(pystr \<Rightarrow> pystr) \<Rightarrow> pystr \<Rightarrow> pystr" where
  "lower unicode_lower s =
     (if list_all (\<lambda>c. c < 0x80) s then map ascii_lower s else unicode_lower s)"

text \<open>
  \<^verbatim>\<open>bytes.decode('utf-8')\<close> in strict mode: \<open>None\<close> is \<^verbatim>\<open>UnicodeDecodeError\<close> (a stray or
  missing continuation byte, an overlong form, a surrogate, a code point above U+10FFFF).
\<close>

definition utf8_width :: "nat \<Rightarrow> nat" where
  "utf8_width n =
     (if n < 0x80 then 1
      else if 0xC2 \<le> n \<and> n \<le> 0xDF then 2
      else if 0xE0 \<le> n \<and> n \<le> 0xEF then 3
      else if 0xF0 \<le> n \<and> n \<le> 0xF4 then 4
      else 0)"

definition is_cont :: "nat \<Rightarrow> bool" where
  "is_cont b \<longleftrightarrow> 0x80 \<le> b \<and> b \<le> 0xBF"

definition utf8_point :: "nat list \<Rightarrow> nat option" where
  "utf8_point bs =
     (case bs of
        [n] \<Rightarrow> Some n
      | [n, a] \<Rightarrow>
          if is_cont a then Some ((n - 0xC0) * 64 + (a - 0x80)) else None
      | [n, a, b] \<Rightarrow>
          if is_cont a \<and> is_cont b \<and> (n = 0xE0 \<longrightarrow> 0xA0 \<le> a) \<and> (n = 0xED \<longrightarrow> a \<le> 0x9F)
          then Some ((n - 0xE0) * 4096 + (a - 0x80) * 64 + (b - 0x80))
          else None
      | [n, a, b, c] \<Rightarrow>
          if is_cont a \<and> is_cont b \<and> is_cont c
             \<and> (n = 0xF0 \<longrightarrow> 0x90 \<le> a) \<and> (n = 0xF4 \<longrightarrow> a \<le> 0x8F)
          then Some ((n - 0xF0) * 262144 + (a - 0x80) * 4096 + (b - 0x80) * 64 + (c - 0x80))
          else None
      | _ \<Rightarrow> None)"

function utf8_decode :: "string \<Rightarrow> pystr option" where
  "utf8_decode [] = Some []"
| "utf8_decode (b # bs) =
     (let k = utf8_width (of_char b) in
      if k = 0 \<or> length (b # bs) < k then None
      else (case utf8_point (map of_char (take k (b # bs))) of
              None \<Rightarrow> None
            | Some cp \<Rightarrow> map_option ((#) cp) (utf8_decode (drop k (b # bs)))))"
  by pat_completeness auto
termination
  by (relation "measure length") auto

subsection \<open>The response post-processor\<close>

text \<open>
  \<^verbatim>\<open>re.sub(r'<think>.*?</think>', '', text, flags=re.DOTALL)\<close>: the scan goes left to
  right; at an opening marker the lazy \<^verbatim>\<open>.*?\<close> (any character, newlines too) stops at the
  nearest closing marker; the match is dropped and the scan goes on behind it. Where no
  closing marker follows, there is no match at this position and the character stays.
\<close>

definition think_open :: pystr where
  "think_open = ustr ''<think>''"

definition think_close :: pystr where
  "think_close = ustr ''</think>''"

fun find_after :: "pystr \<Rightarrow> pystr \<Rightarrow> pystr option" where
  "find_after p [] = (if p = [] then Some [] else None)"
| "find_after p (c # cs) =
     (if prefix p (c # cs) then Some (drop (length p) (c # cs)) else find_after p cs)"

function remove_think :: "pystr \<Rightarrow> pystr" where
  "remove_think [] = []"
| "remove_think (c # cs) =
     (if prefix think_open (c # cs) then
        (case find_after think_close (drop (length think_open) (c # cs)) of
           Some rest \<Rightarrow> remove_think rest
         | None \<Rightarrow> c # remove_think cs)
      else c # remove_think cs)"
  by pat_completeness auto
termination
proof (relation "measure length")
  show "wf (measure length)" by simp
next
  fix c :: nat and cs rest :: pystr
  assume found: "find_after think_close (drop (length think_open) (c # cs)) = Some rest"
  have shorter: "find_after p s = Some r \<Longrightarrow> length r \<le> length s" for p s r
    by (induction s arbitrary: r) (auto split: if_splits)
  have "length rest \<le> length (drop (length think_open) (c # cs))"
    using found by (rule shorter)
  also have "\<dots> < length (c # cs)"
    by (simp add: think_open_def ustr_def)
  finally show "(rest, c # cs) \<in> measure length" by simp
qed auto

text \<open>
  \<^verbatim>\<open>re.sub(r'<[^>]+>', '', cleaned)\<close>: at a \<open><\<close> the greedy class takes every character
  up to the next \<open>>\<close>; there is a match when it took at least one and a \<open>>\<close> follows.
\<close>

definition chr_lt :: nat where
  "chr_lt = of_char CHR ''<''"

definition chr_gt :: nat where
  "chr_gt = of_char CHR ''>''"

function remove_tags :: "pystr \<Rightarrow> pystr" where
  "remove_tags [] = []"
| "remove_tags (c # cs) =
     (if c = chr_lt
         \<and> takeWhile (\<lambda>x. x \<noteq> chr_gt) cs \<noteq> [] \<and> dropWhile (\<lambda>x. x \<noteq> chr_gt) cs \<noteq> []
      then remove_tags (tl (dropWhile (\<lambda>x. x \<noteq> chr_gt) cs))
      else c # remove_tags cs)"
  by pat_completeness auto
termination
proof (relation "measure length")
  show "wf (measure length)" by simp
next
  fix c :: nat and cs :: pystr
  have "length (tl (dropWhile (\<lambda>x. x \<noteq> chr_gt) cs)) \<le> length (dropWhile (\<lambda>x. x \<noteq> chr_gt) cs)"
    by simp
  also have "\<dots> \<le> length cs"
    by (rule length_dropWhile_le)
  finally show "(tl (dropWhile (\<lambda>x. x \<noteq> chr_gt) cs), c # cs) \<in> measure length"
    by simp
qed auto

text \<open>\<^verbatim>\<open>clean_response_text\<close> (lines 558 to 571).\<close>

definition clean_response_text :: "pystr \<Rightarrow> pystr" where
  "clean_response_text text =
     (let cleaned = remove_think text;
          cleaned = lstrip_chars (ustr ''\<newline>'') cleaned;
          cleaned = remove_tags cleaned
      in strip cleaned)"

section \<open>JSON values and the operations the code applies to them\<close>

text \<open>
  What \<^verbatim>\<open>json.loads\<close> and \<^verbatim>\<open>response.json()\<close> return: \<^verbatim>\<open>None\<close>, a bool, an int, a float, a
  str, a list or a dict with string keys (an association list; a key's first entry counts).
\<close>

datatype json =
    JNull
  | JBool bool
  | JInt int
  | JFloat real
  | JStr pystr
  | JArr "json list"
  | JObj "(pystr \<times> json) list"

text \<open>
  The exceptions that occur: those of \<^verbatim>\<open>requests\<close> that the retry loop tells apart, the
  module's own \<^verbatim>\<open>APIKeyError\<close> and \<^verbatim>\<open>ConnectionError\<close> (the latter raised with the message
  \<^verbatim>\<open>API error: <status>\<close>, kept here as the status), the built-in errors of subscripting and
  attribute access, the exceptions of \<^verbatim>\<open>json.loads\<close> (\<^verbatim>\<open>json.JSONDecodeError\<close> on a text that is
  not JSON; \<^verbatim>\<open>RecursionError\<close> on a text nested too deeply and a plain \<^verbatim>\<open>ValueError\<close> on an
  integer with too many digits, neither of which is a \<^verbatim>\<open>JSONDecodeError\<close>), and any other
  exception with its message.
\<close>

datatype exc =
    RequestsConnectionError
  | RequestsTimeout
  | APIKeyError pystr
  | LLMConnectionError int
  | KeyError json
  | IndexError
  | TypeError
  | AttributeError
  | JSONDecodeError
  | RecursionError
  | ValueError
  | OtherException pystr

definition ebind :: "exc + 'a \<Rightarrow> ('a \<Rightarrow> exc + 'b) \<Rightarrow> exc + 'b" where
  "ebind m f = (case m of Inl e \<Rightarrow> Inl e | Inr x \<Rightarrow> f x)"

text \<open>Truth value of an object, as \<^verbatim>\<open>if x:\<close> and \<^verbatim>\<open>and\<close> test it.\<close>

fun truthy :: "json \<Rightarrow> bool" where
  "truthy JNull = False"
| "truthy (JBool b) = b"
| "truthy (JInt i) = (i \<noteq> 0)"
| "truthy (JFloat x) = (x \<noteq> 0)"
| "truthy (JStr s) = (s \<noteq> [])"
| "truthy (JArr xs) = (xs \<noteq> [])"
| "truthy (JObj kvs) = (kvs \<noteq> [])"

text \<open>
  \<^verbatim>\<open>key in x\<close> for a string key: key membership in a dict, element membership in a list,
  the substring test in a str, \<^verbatim>\<open>TypeError\<close> anywhere else.
\<close>

fun py_in :: "pystr \<Rightarrow> json \<Rightarrow> exc + bool" where
  "py_in key (JObj kvs) = Inr (map_of kvs key \<noteq> None)"
| "py_in key (JArr xs) = Inr (JStr key \<in> set xs)"
| "py_in key (JStr s) = Inr (str_contains key s)"
| "py_in key _ = Inl TypeError"

text \<open>\<^verbatim>\<open>x[key]\<close> for a string key, \<^verbatim>\<open>x[0]\<close>, and \<^verbatim>\<open>x.get(key, default)\<close>.\<close>

fun py_getitem :: "json \<Rightarrow> pystr \<Rightarrow> exc + json" where
  "py_getitem (JObj kvs) key =
     (case map_of kvs key of Some v \<Rightarrow> Inr v | None \<Rightarrow> Inl (KeyError (JStr key)))"
| "py_getitem _ key = Inl TypeError"

fun py_getitem0 :: "json \<Rightarrow> exc + json" where
  "py_getitem0 (JArr []) = Inl IndexError"
| "py_getitem0 (JArr (v # vs)) = Inr v"
| "py_getitem0 (JStr []) = Inl IndexError"
| "py_getitem0 (JStr (c # cs)) = Inr (JStr [c])"
| "py_getitem0 (JObj kvs) = Inl (KeyError (JInt 0))"
| "py_getitem0 _ = Inl TypeError"

fun py_get :: "json \<Rightarrow> pystr \<Rightarrow> json \<Rightarrow> exc + json" where
  "py_get (JObj kvs) key dflt = Inr (case map_of kvs key of Some v \<Rightarrow> v | None \<Rightarrow> dflt)"
| "py_get _ key dflt = Inl AttributeError"

text \<open>The test \<^verbatim>\<open>"choices" in x and x["choices"]\<close> of lines 504 and 679.\<close>

definition has_choices :: "json \<Rightarrow> exc + bool" where
  "has_choices x =
     ebind (py_in (ustr ''choices'') x) (\<lambda>present.
       if \<not> present then Inr False
       else ebind (py_getitem x (ustr ''choices'')) (\<lambda>choices. Inr (truthy choices)))"

text \<open>\<^verbatim>\<open>extract_response_text\<close> (lines 677 to 684).\<close>

definition unexpected_format :: pystr where
  "unexpected_format = ustr ''Error: Unexpected response format from LLM service.''"

definition extract_response_text :: "json \<Rightarrow> exc + json" where
  "extract_response_text response =
     ebind (has_choices response) (\<lambda>ok.
       if ok then
         ebind (py_getitem response (ustr ''choices'')) (\<lambda>choices.
         ebind (py_getitem0 choices) (\<lambda>first.
         ebind (py_in (ustr ''message'') first) (\<lambda>has_message.
           if has_message then
             ebind (py_getitem first (ustr ''message'')) (\<lambda>message.
               py_getitem message (ustr ''content''))
           else
             ebind (py_in (ustr ''text'') first) (\<lambda>has_text.
               if has_text then py_getitem first (ustr ''text'')
               else Inr (JStr unexpected_format)))))
       else Inr (JStr unexpected_format))"

text \<open>
  The body of the streaming loop from line 504 to line 509, for one parsed chunk: the
  text to add to \<^verbatim>\<open>full_response\<close> (\<open>None\<close>: nothing to add), or the exception raised.
  A \<^verbatim>\<open>content\<close> that is true but not a str fails at \<^verbatim>\<open>full_response += content\<close>.
\<close>

definition chunk_content :: "json \<Rightarrow> exc + pystr option" where
  "chunk_content json_data =
     ebind (has_choices json_data) (\<lambda>ok.
       if ok then
         ebind (py_getitem json_data (ustr ''choices'')) (\<lambda>choices.
         ebind (py_getitem0 choices) (\<lambda>first.
         ebind (py_get first (ustr ''delta'') (JObj [])) (\<lambda>delta.
         ebind (py_get delta (ustr ''content'') (JStr [])) (\<lambda>content.
           if truthy content then
             (case content of JStr text \<Rightarrow> Inr (Some text) | _ \<Rightarrow> Inl TypeError)
           else Inr None))))
       else Inr None)"

section \<open>The quiz dialog\<close>

subsection \<open>Data\<close>

datatype role = System | User | Assistant

record message =
  role :: role
  content :: pystr

text \<open>
  The add-on configuration, a dict read with \<^verbatim>\<open>config.get(key, default)\<close>: a key may be
  absent. Field \<open>cfg_k\<close> is the entry of key \<open>k\<close>.
\<close>

record config =
  cfg_llm_studio_url :: "pystr option"
  cfg_openai_api_key :: "pystr option"
  cfg_use_openai :: "bool option"
  cfg_openai_model :: "pystr option"
  cfg_timeout :: "int option"
  cfg_max_retries :: "int option"
  cfg_stream_responses :: "bool option"
  cfg_system_prompt :: "pystr option"

definition get_or :: "'a option \<Rightarrow> 'a \<Rightarrow> 'a" where
  "get_or v dflt = (case v of None \<Rightarrow> dflt | Some x \<Rightarrow> x)"

text \<open>The arguments of one \<^verbatim>\<open>requests.post\<close> call.\<close>

record request =
  url :: pystr
  headers :: "(pystr \<times> pystr) list"
  body_model :: pystr
  body_messages :: "message list"
  body_temperature :: real
  body_max_tokens :: int
  body_stream :: bool
  opt_stream :: bool
  opt_timeout :: int

text \<open>
  What the call gives back. A response has its status, the outcome of \<^verbatim>\<open>response.json()\<close>,
  and the lines \<^verbatim>\<open>response.iter_lines()\<close> yields, followed by the exception the iterator
  raises after them when the transport fails in mid-stream.
\<close>

record response =
  status_code :: int
  json_result :: "exc + json"
  iter_lines :: "string list"
  iter_failure :: "exc option"

datatype post_outcome = PostRaises exc | PostReturns response

text \<open>
  Everything the dialog does to the outside, in the order the code issues it: the
  request, the pause, and the calls on the widgets. A call that the worker hands to
  \<^verbatim>\<open>mw.taskman.run_on_main\<close> is logged when it is handed over; when the main thread
  runs it is not part of the model. \<open>ChatAppendError e\<close> is
  \<^verbatim>\<open>chat_display.append(f"<b>Error:</b> {str(e)}")\<close>, \<open>ChatAppendStreamError e\<close> is
  \<^verbatim>\<open>chat_display.append(f"<b>Error:</b> Streaming failed: {msg}")\<close>, \<open>InsertText\<close> is
  \<^verbatim>\<open>append_stream_text_safely\<close>, and \<open>ShowInfoMissingKey k\<close> is the \<^verbatim>\<open>showInfo\<close> of line 367.
\<close>

datatype effect =
    HttpPost request
  | Sleep nat
  | ChatClear
  | ChatAppend pystr
  | ChatAppendError exc
  | ChatAppendStreamError exc
  | InsertText pystr
  | InputClear
  | SendEnabled bool
  | ShowInfoMissingKey pystr

text \<open>
  Library functions the code calls and the repository does not define: \<^verbatim>\<open>json.loads\<close>
  (the value it returns or the exception it raises), the Unicode part of \<^verbatim>\<open>str.lower\<close>, and
  \<^verbatim>\<open>str.format\<close> on the templates outside the fragment modelled below.
\<close>

datatype fmt_result = Formatted pystr | FormatKeyError pystr | FormatError exc

record pylib =
  json_loads :: "pystr \<Rightarrow> exc + json"
  unicode_lower :: "pystr \<Rightarrow> pystr"
  format_ext :: "pystr \<Rightarrow> pystr \<Rightarrow> pystr \<Rightarrow> fmt_result"

text \<open>The fields of \<^verbatim>\<open>LLMQuizDialog\<close> the claims are about, and the log of its effects.\<close>

record quiz =
  config :: config
  question :: pystr
  answer :: pystr
  conversation_history :: "message list"
  quiz_completed :: bool
  is_streaming :: bool
  effects :: "effect list"

definition emit :: "effect \<Rightarrow> quiz \<Rightarrow> quiz" where
  "emit e s = s\<lparr>effects := effects s @ [e]\<rparr>"

definition append_history :: "role \<Rightarrow> pystr \<Rightarrow> quiz \<Rightarrow> quiz" where
  "append_history r text s =
     s\<lparr>conversation_history := conversation_history s @ [\<lparr>role = r, content = text\<rparr>]\<rparr>"

subsection \<open>\<^verbatim>\<open>str.format(question=..., answer=...)\<close>\<close>

text \<open>
  The fragment of format strings modelled here: literal text, the escapes \<^verbatim>\<open>{{\<close> and
  \<^verbatim>\<open>}}\<close>, and replacement fields \<^verbatim>\<open>{name}\<close> whose name is made of ASCII letters and
  underscores. Fields are rendered from left to right; a name other than \<open>question\<close> and
  \<open>answer\<close> raises \<^verbatim>\<open>KeyError\<close>. Any other use of a brace (a conversion, a format
  specification, an index, an attribute, a lone brace) is left to \<open>format_ext\<close>.
\<close>

datatype fmt_piece = Lit nat | Field pystr

definition chr_lbrace :: nat where
  "chr_lbrace = of_char CHR ''{''"

definition chr_rbrace :: nat where
  "chr_rbrace = of_char CHR ''}''"

definition ident_char :: "nat \<Rightarrow> bool" where
  "ident_char c \<longleftrightarrow> (0x41 \<le> c \<and> c \<le> 0x5A) \<or> (0x61 \<le> c \<and> c \<le> 0x7A) \<or> c = 0x5F"

function fmt_parse :: "pystr \<Rightarrow> fmt_piece list option" where
  "fmt_parse [] = Some []"
| "fmt_parse (c # cs) =
     (if c = chr_lbrace then
        (if cs \<noteq> [] \<and> hd cs = chr_lbrace
         then map_option ((#) (Lit chr_lbrace)) (fmt_parse (tl cs))
         else if takeWhile ident_char cs \<noteq> [] \<and> dropWhile ident_char cs \<noteq> []
                 \<and> hd (dropWhile ident_char cs) = chr_rbrace
         then map_option ((#) (Field (takeWhile ident_char cs)))
                (fmt_parse (tl (dropWhile ident_char cs)))
         else None)
      else if c = chr_rbrace then
        (if cs \<noteq> [] \<and> hd cs = chr_rbrace
         then map_option ((#) (Lit chr_rbrace)) (fmt_parse (tl cs))
         else None)
      else map_option ((#) (Lit c)) (fmt_parse cs))"
  by pat_completeness auto
termination
proof (relation "measure length")
  fix c :: nat and cs :: pystr
  have "length (tl (dropWhile ident_char cs)) \<le> length (dropWhile ident_char cs)"
    by simp
  also have "\<dots> \<le> length cs"
    by (rule length_dropWhile_le)
  finally show "(tl (dropWhile ident_char cs), c # cs) \<in> measure length"
    by simp
qed auto

fun fmt_render :: "fmt_piece list \<Rightarrow> pystr \<Rightarrow> pystr \<Rightarrow> fmt_result" where
  "fmt_render [] q a = Formatted []"
| "fmt_render (Lit c # ps) q a =
     (case fmt_render ps q a of Formatted r \<Rightarrow> Formatted (c # r) | failure \<Rightarrow> failure)"
| "fmt_render (Field name # ps) q a =
     (if name = ustr ''question'' then
        (case fmt_render ps q a of Formatted r \<Rightarrow> Formatted (q @ r) | failure \<Rightarrow> failure)
      else if name = ustr ''answer'' then
        (case fmt_render ps q a of Formatted r \<Rightarrow> Formatted (a @ r) | failure \<Rightarrow> failure)
      else FormatKeyError name)"

definition py_format :: "pylib \<Rightarrow> pystr \<Rightarrow> pystr \<Rightarrow> pystr \<Rightarrow> fmt_result" where
  "py_format lib template q a =
     (case fmt_parse template of
        Some pieces \<Rightarrow> fmt_render pieces q a
      | None \<Rightarrow> format_ext lib template q a)"

subsection \<open>\<^verbatim>\<open>display_question\<close> (lines 331 to 372)\<close>

definition default_prompt :: pystr where
  \<open>default_prompt =
     ustr (''You are an interactive flashcard tutor for Anki. Help the user learn the material effectively.\<newline>''
       @ ''\<newline>''
       @ ''    QUESTION: {question}\<newline>''
       @ ''    CORRECT ANSWER: {answer}\<newline>''
       @ ''\<newline>''
       @ ''    IMPORTANT INSTRUCTIONS:\<newline>''
       @ ''    1. NEVER repeat or restate the question - the user already sees it\<newline>''
       @ ''    2. Wait for the user's answer\<newline>''
       @ ''    3. Evaluate their answer as Correct, Partially Correct, or Incorrect\<newline>''
       @ ''    4. Give specific feedback on what they got right or wrong\<newline>''
       @ ''    5. If not fully correct, ask ONE specific guiding question\<newline>''
       @ ''    6. Keep responses under 3 sentences\<newline>''
       @ ''    7. Use ONLY English\<newline>''
       @ ''    8. Focus only on the card's content - don't introduce external information\<newline>''
       @ ''\<newline>''
       @ ''    Response Guidelines:\<newline>''
       @ ''    - Correct answer: Acknowledge briefly. Optionally add ONE relevant detail or follow-up question\<newline>''
       @ ''    - Partially correct: Identify what's right/wrong. Ask ONE specific question to guide them\<newline>''
       @ ''    - Incorrect: Gently correct and ask ONE guiding question to help them learn\<newline>''
       @ ''\<newline>''
       @ ''    NEVER start your response with "Question:", "QUESTION:", or restate the original question.'')\<close>

definition chr_apos :: nat where
  "chr_apos = 0x27"

text \<open>The prompt of line 368, used when the template names a key that is not supplied.\<close>

definition basic_prompt :: "pystr \<Rightarrow> pystr \<Rightarrow> pystr" where
  "basic_prompt q a =
     ustr ''The user is answering: '' @ [chr_apos] @ q @ [chr_apos]
     @ ustr ''. Correct answer: '' @ [chr_apos] @ a @ [chr_apos]
     @ ustr ''. Evaluate their response.''"

text \<open>
  The result is the exception that leaves the method, if any, and the dialog as the
  method left it. Only \<^verbatim>\<open>KeyError\<close> is caught (line 366).
\<close>

definition seed_history :: "pystr \<Rightarrow> quiz \<Rightarrow> quiz" where
  "seed_history prompt s =
     emit (ChatAppend (ustr ''<b>Quiz:</b> Question: '' @ question s))
       (s\<lparr>conversation_history := [\<lparr>role = System, content = prompt\<rparr>]\<rparr>)"

definition display_question :: "pylib \<Rightarrow> quiz \<Rightarrow> exc option \<times> quiz" where
  "display_question lib s0 =
     (let s = s0\<lparr>conversation_history := []\<rparr>;
          s = emit ChatClear s;
          s = s\<lparr>quiz_completed := False\<rparr>;
          system_prompt_template = get_or (cfg_system_prompt (config s)) default_prompt
      in case py_format lib system_prompt_template (question s) (answer s) of
           Formatted prompt \<Rightarrow> (None, seed_history prompt s)
         | FormatKeyError k \<Rightarrow>
             (None, seed_history (basic_prompt (question s) (answer s))
                      (emit (ShowInfoMissingKey k) s))
         | FormatError e \<Rightarrow> (Some e, s))"

subsection \<open>\<^verbatim>\<open>send_message\<close> (lines 374 to 386)\<close>


subsection \<open>\<^verbatim>\<open>add_assistant_response\<close> (lines 660 to 675)\<close>

definition add_assistant_response :: "pylib \<Rightarrow> pystr \<Rightarrow> quiz \<Rightarrow> quiz" where
  "add_assistant_response lib response s =
     (let low = lower (unicode_lower lib);
          cleaned_response = clean_response_text response;
          cleaned_response =
            (if startswith (low cleaned_response) (ustr ''question:'')
                \<or> str_contains (low (question s)) (take 30 (low cleaned_response))
             then join (ustr ''\<newline>'')
                    (filter (\<lambda>line. \<not> startswith (low line) (ustr ''question:''))
                       (split (of_char CHR ''\<newline>'') cleaned_response))
             else cleaned_response)
      in if strip cleaned_response \<noteq> [] then
           emit (ChatAppend (ustr ''<b>Quiz:</b> '' @ cleaned_response))
             (append_history Assistant cleaned_response s)
         else s)"

subsection \<open>\<^verbatim>\<open>handle_stream_response\<close> (lines 475 to 535)\<close>

text \<open>
  The \<^verbatim>\<open>for\<close> loop over the lines (lines 487 to 518), with \<^verbatim>\<open>full_response\<close> and the dialog
  passed along. A line that \<^verbatim>\<open>decode\<close> rejects (\<^verbatim>\<open>UnicodeDecodeError\<close>, line 494) and a payload
  on which \<^verbatim>\<open>json.loads\<close> raises \<^verbatim>\<open>json.JSONDecodeError\<close> (line 516) are passed over; any other
  exception, of \<^verbatim>\<open>json.loads\<close> or of the reading of the chunk, leaves the loop.
\<close>

fun stream_loop :: "pylib \<Rightarrow> string list \<Rightarrow> pystr \<Rightarrow> quiz \<Rightarrow> exc option \<times> pystr \<times> quiz" where
  "stream_loop lib [] full_response s = (None, full_response, s)"
| "stream_loop lib (line # rest) full_response s =
     (if line = [] then stream_loop lib rest full_response s
      else
        (case utf8_decode line of
           None \<Rightarrow> stream_loop lib rest full_response s
         | Some line_str \<Rightarrow>
             if startswith line_str (ustr ''data: '') then
               (case json_loads lib (drop 6 line_str) of
                  Inl e \<Rightarrow>
                    if e = JSONDecodeError then stream_loop lib rest full_response s
                    else (Some e, full_response, s)
                | Inr json_data \<Rightarrow>
                    (case chunk_content json_data of
                       Inl e \<Rightarrow> (Some e, full_response, s)
                     | Inr None \<Rightarrow> stream_loop lib rest full_response s
                     | Inr (Some delta_text) \<Rightarrow>
                         stream_loop lib rest (full_response @ delta_text)
                           (emit (InsertText delta_text) s)))
             else stream_loop lib rest full_response s))"

text \<open>
  The whole method. An exception of the loop, or the one the iterator raises once its
  lines are used up, is reported in the chat; the \<^verbatim>\<open>finally\<close> block runs either way.
\<close>

definition handle_stream_response :: "pylib \<Rightarrow> response \<Rightarrow> quiz \<Rightarrow> quiz" where
  "handle_stream_response lib resp s0 =
     (let s = s0\<lparr>is_streaming := True\<rparr>;
          s = emit (ChatAppend (ustr ''<b>Quiz:</b> '')) s
      in case stream_loop lib (iter_lines resp) [] s of
           (raised, full_response, s) \<Rightarrow>
             (let raised = (case raised of None \<Rightarrow> iter_failure resp | Some e \<Rightarrow> Some e);
                  s = (case raised of None \<Rightarrow> s | Some e \<Rightarrow> emit (ChatAppendStreamError e) s);
                  s = s\<lparr>is_streaming := False\<rparr>
              in if full_response \<noteq> []
                 then append_history Assistant (clean_response_text full_response) s
                 else s))"

subsection \<open>\<^verbatim>\<open>process_response\<close> (lines 388 to 473)\<close>

text \<open>The request of lines 396 to 430.\<close>

definition build_request :: "config \<Rightarrow> message list \<Rightarrow> request" where
  "build_request cfg history =
     (let use_openai = get_or (cfg_use_openai cfg) False;
          openai_key = get_or (cfg_openai_api_key cfg) [];
          stream = get_or (cfg_stream_responses cfg) True
      in if use_openai \<and> openai_key \<noteq> [] then
           \<lparr>url = ustr ''https://api.openai.com/v1/chat/completions'',
            headers = [(ustr ''Content-Type'', ustr ''application/json''),
                       (ustr ''Authorization'', ustr ''Bearer '' @ openai_key)],
            body_model = get_or (cfg_openai_model cfg) (ustr ''gpt-3.5-turbo''),
            body_messages = history,
            body_temperature = 0.5,
            body_max_tokens = 150,
            body_stream = stream,
            opt_stream = stream,
            opt_timeout = get_or (cfg_timeout cfg) 30\<rparr>
         else
           \<lparr>url = get_or (cfg_llm_studio_url cfg) (ustr ''http://localhost:1234/v1/chat/completions''),
            headers = [(ustr ''Content-Type'', ustr ''application/json'')],
            body_model = ustr ''local-model'',
            body_messages = history,
            body_temperature = 0.5,
            body_max_tokens = 150,
            body_stream = stream,
            opt_stream = stream,
            opt_timeout = get_or (cfg_timeout cfg) 30\<rparr>)"

text \<open>
  The body of the \<^verbatim>\<open>try\<close> (lines 396 to 444) for one outcome of the request: the
  exception that leaves it, if any, and the dialog at that point. A reply extracted from
  the JSON that is not a str makes \<^verbatim>\<open>re.sub\<close> raise \<^verbatim>\<open>TypeError\<close>.
\<close>

definition try_body :: "pylib \<Rightarrow> post_outcome \<Rightarrow> quiz \<Rightarrow> exc option \<times> quiz" where
  "try_body lib outcome s0 =
     (let stream = get_or (cfg_stream_responses (config s0)) True;
          s = emit (HttpPost (build_request (config s0) (conversation_history s0))) s0
      in case outcome of
           PostRaises e \<Rightarrow> (Some e, s)
         | PostReturns resp \<Rightarrow>
             if status_code resp = 401 then (Some (APIKeyError (ustr ''Invalid API key'')), s)
             else if status_code resp \<noteq> 200 then (Some (LLMConnectionError (status_code resp)), s)
             else if stream then (None, handle_stream_response lib resp s)
             else
               (case json_result resp of
                  Inl e \<Rightarrow> (Some e, s)
                | Inr result \<Rightarrow>
                    (case extract_response_text result of
                       Inl e \<Rightarrow> (Some e, s)
                     | Inr (JStr llm_response) \<Rightarrow> (None, add_assistant_response lib llm_response s)
                     | Inr _ \<Rightarrow> (Some TypeError, s))))"

text \<open>
  The \<^verbatim>\<open>while\<close> loop. \<open>net\<close> gives the outcome of the request of each attempt, counted
  from 0; the attempt number is \<^verbatim>\<open>retries\<close>, which goes up by one with every request that
  does not end the loop.
\<close>

definition connection_failed :: pystr where
  "connection_failed = ustr ''<b>Error:</b> Connection failed. Make sure the LLM service is running.''"

definition request_timed_out :: pystr where
  "request_timed_out = ustr ''<b>Error:</b> Request timed out.''"

function process_loop ::
  "pylib \<Rightarrow> (nat \<Rightarrow> post_outcome) \<Rightarrow> int \<Rightarrow> nat \<Rightarrow> quiz \<Rightarrow> quiz" where
  "process_loop lib net max_retries retries s =
     (if int retries < max_retries then
        (case try_body lib (net retries) s of
           (None, s) \<Rightarrow> emit (SendEnabled True) s
         | (Some RequestsConnectionError, s) \<Rightarrow>
             (let s = (if int (retries + 1) \<ge> max_retries
                       then emit (ChatAppend connection_failed) s else s)
              in process_loop lib net max_retries (retries + 1) (emit (Sleep 1) s))
         | (Some RequestsTimeout, s) \<Rightarrow>
             (let s = (if int (retries + 1) \<ge> max_retries
                       then emit (ChatAppend request_timed_out) s else s)
              in process_loop lib net max_retries (retries + 1) (emit (Sleep 1) s))
         | (Some e, s) \<Rightarrow> emit (SendEnabled True) (emit (ChatAppendError e) s))
      else emit (SendEnabled True) s)"
  by pat_completeness auto
termination
  by (relation "measure (\<lambda>(lib, net, max_retries, retries, s). nat (max_retries - int retries))")
     auto

declare process_loop.simps [simp del]

definition process_response :: "pylib \<Rightarrow> (nat \<Rightarrow> post_outcome) \<Rightarrow> quiz \<Rightarrow> quiz" where
  "process_response lib net s =
     process_loop lib net (get_or (cfg_max_retries (config s)) 3) 0 s"

section \<open>The post-processor as the specification words it\<close>



section \<open>The stream decoder as the specification words it\<close>

text \<open>
  The policy of the specification for one raw line, written from its sentences and not
  from the code. \<open>payload_of\<close>: a blank line, a line that is not text and a line without
  the marker \<^verbatim>\<open>data: \<close> are skipped; otherwise the marker is stripped and the payload handed
  to the parser. \<open>spec_lookup\<close>: the value at \<^verbatim>\<open>choices[0].delta.content\<close>, where it is
  present and non-empty. \<open>spec_delta\<close>: a line whose payload does not parse is skipped, one
  whose payload parses gives what \<open>spec_lookup\<close> finds. \<open>spec_decode\<close>: what the decoder
  yields for a sequence of lines, in their order.
\<close>

definition payload_of :: "pylib \<Rightarrow> string \<Rightarrow> (exc + json) option" where
  "payload_of lib line =
     (if line = [] then None
      else (case utf8_decode line of
              None \<Rightarrow> None
            | Some text \<Rightarrow>
                if startswith text (ustr ''data: '') then Some (json_loads lib (drop 6 text))
                else None))"

definition spec_lookup :: "json \<Rightarrow> pystr option" where
  "spec_lookup j =
     (case j of
        JObj kvs \<Rightarrow>
          (case map_of kvs (ustr ''choices'') of
             Some (JArr (JObj first # others)) \<Rightarrow>
               (case map_of first (ustr ''delta'') of
                  Some (JObj delta) \<Rightarrow>
                    (case map_of delta (ustr ''content'') of
                       Some (JStr text) \<Rightarrow> if text = [] then None else Some text
                     | _ \<Rightarrow> None)
                | _ \<Rightarrow> None)
           | _ \<Rightarrow> None)
      | _ \<Rightarrow> None)"

definition spec_delta :: "pylib \<Rightarrow> string \<Rightarrow> pystr option" where
  "spec_delta lib line =
     (case payload_of lib line of
        Some (Inr json_data) \<Rightarrow> spec_lookup json_data
      | _ \<Rightarrow> None)"

definition spec_decode :: "pylib \<Rightarrow> string list \<Rightarrow> pystr list" where
  "spec_decode lib lines = List.map_filter (spec_delta lib) lines"

text \<open>
  The parsed payloads that the loop reads without an exception. An object: \<open>choices\<close>,
  if present and true, is an array that starts with an object, in which \<open>delta\<close>, if
  present, is an object, in which \<open>content\<close>, if present and true, is a string. An array:
  the string \<open>choices\<close> is not one of its elements. A string: \<open>choices\<close> does not occur in
  it. (In an array or a string the test \<^verbatim>\<open>"choices" in json_data\<close> of line 504 is false in
  these cases, and the line is passed over.) A line can be read when it has no payload,
  when the parser raises \<^verbatim>\<open>json.JSONDecodeError\<close> on its payload, or when its parsed payload
  is one of these.
\<close>

definition is_str :: "json \<Rightarrow> bool" where
  "is_str v = (case v of JStr text \<Rightarrow> True | _ \<Rightarrow> False)"

definition delta_shaped :: "json \<Rightarrow> bool" where
  "delta_shaped d =
     (case d of
        JObj delta \<Rightarrow>
          (case map_of delta (ustr ''content'') of
             None \<Rightarrow> True
           | Some v \<Rightarrow> \<not> truthy v \<or> is_str v)
      | _ \<Rightarrow> False)"

definition choices_shaped :: "json \<Rightarrow> bool" where
  "choices_shaped c =
     (case c of
        JArr (JObj first # others) \<Rightarrow>
          (case map_of first (ustr ''delta'') of
             None \<Rightarrow> True
           | Some d \<Rightarrow> delta_shaped d)
      | _ \<Rightarrow> False)"

definition chunk_shaped :: "json \<Rightarrow> bool" where
  "chunk_shaped j =
     (case j of
        JObj kvs \<Rightarrow>
          (case map_of kvs (ustr ''choices'') of
             None \<Rightarrow> True
           | Some c \<Rightarrow> \<not> truthy c \<or> choices_shaped c)
      | JArr xs \<Rightarrow> JStr (ustr ''choices'') \<notin> set xs
      | JStr text \<Rightarrow> \<not> str_contains (ustr ''choices'') text
      | _ \<Rightarrow> False)"

definition line_shaped :: "pylib \<Rightarrow> string \<Rightarrow> bool" where
  "line_shaped lib line =
     (case payload_of lib line of
        None \<Rightarrow> True
      | Some (Inl e) \<Rightarrow> e = JSONDecodeError
      | Some (Inr json_data) \<Rightarrow> chunk_shaped json_data)"

section \<open>Observations on a run of the retry loop\<close>

text \<open>
  Words for the statements about \<open>process_response\<close>: an outcome of a request that the
  loop retries (the two \<^verbatim>\<open>except\<close> clauses of lines 450 and 458), the entry the loop
  writes into the chat when such an outcome was the last one allowed, and the number of
  requests a dialog has sent.
\<close>

definition transient :: "post_outcome \<Rightarrow> bool" where
  "transient outcome \<longleftrightarrow>
     outcome = PostRaises RequestsConnectionError \<or> outcome = PostRaises RequestsTimeout"

definition failure_text :: "post_outcome \<Rightarrow> pystr" where
  "failure_text outcome =
     (if outcome = PostRaises RequestsTimeout then request_timed_out else connection_failed)"

definition is_post :: "effect \<Rightarrow> bool" where
  "is_post e = (case e of HttpPost req \<Rightarrow> True | _ \<Rightarrow> False)"

definition attempts :: "quiz \<Rightarrow> nat" where
  "attempts s = length (filter is_post (effects s))"

section \<open>Sessions\<close>


text \<open>
  The invariant of the history: a system message first, user and assistant messages
  behind it. And what an operation may do to a history: add user and assistant messages
  at its end.
\<close>

definition is_turn :: "message \<Rightarrow> bool" where
  "is_turn m \<longleftrightarrow> role m = User \<or> role m = Assistant"


definition appends_turns :: "quiz \<Rightarrow> quiz \<Rightarrow> bool" where
  "appends_turns s s' \<longleftrightarrow>
     (\<exists>new. conversation_history s' = conversation_history s @ new \<and> list_all is_turn new)"

section \<open>Sample inputs\<close>

text \<open>
  Concrete inputs for the examples: a configuration with every key absent (the
  defaults apply), the dialog as \<^verbatim>\<open>__init__\<close> sets it up before it calls
  \<^verbatim>\<open>display_question\<close> (lines 270 to 290), and a library instance. \<open>sample_loads\<close> is
  \<^verbatim>\<open>json.loads\<close> on the payloads the examples use: four JSON texts with their values, and
  \<^verbatim>\<open>JSONDecodeError\<close> on the two other payloads of the examples, \<^verbatim>\<open>[DONE]\<close> and \<^verbatim>\<open>not-json\<close>,
  which are not JSON. The examples hold ASCII text and templates of the modelled fragment
  only, so the two other entries of the library are never called in them.
\<close>

definition default_config :: config where
  "default_config =
     \<lparr>cfg_llm_studio_url = None, cfg_openai_api_key = None, cfg_use_openai = None,
      cfg_openai_model = None, cfg_timeout = None, cfg_max_retries = None,
      cfg_stream_responses = None, cfg_system_prompt = None\<rparr>"

definition init_quiz :: "config \<Rightarrow> pystr \<Rightarrow> pystr \<Rightarrow> quiz" where
  "init_quiz cfg q a =
     \<lparr>config = cfg, question = q, answer = a, conversation_history = [],
      quiz_completed = False, is_streaming = False, effects = []\<rparr>"

definition delta_chunk :: "pystr \<Rightarrow> json" where
  "delta_chunk text =
     JObj [(ustr ''choices'', JArr [JObj [(ustr ''delta'', JObj [(ustr ''content'', JStr text)])]])]"

definition sample_values :: "(pystr \<times> json) list" where
  \<open>sample_values =
     [(ustr ''{"choices":[{"delta":{"content":"Hel"}}]}'', delta_chunk (ustr ''Hel'')),
      (ustr ''{"choices":[{"delta":{"content":"lo"}}]}'', delta_chunk (ustr ''lo'')),
      (ustr ''{"choices":[{"delta":{"content":"<think>x</think>"}}]}'',
         delta_chunk (ustr ''<think>x</think>'')),
      (ustr ''5'', JInt 5)]\<close>

definition sample_loads :: "pystr \<Rightarrow> exc + json" where
  "sample_loads payload =
     (case map_of sample_values payload of
        Some v \<Rightarrow> Inr v
      | None \<Rightarrow> Inl JSONDecodeError)"

definition sample_lib :: pylib where
  "sample_lib =
     \<lparr>json_loads = sample_loads,
      unicode_lower = (\<lambda>s. s),
      format_ext = (\<lambda>template q a. FormatError (OtherException (ustr ''not modelled'')))\<rparr>"

text \<open>
  A session after its initialisation and one user turn, and the responses of the
  examples: a stream of one chunk that the transport then breaks, and a stream whose
  only chunk is a reasoning span.
\<close>

definition sample_session :: quiz where
  "sample_session =
     (init_quiz default_config (ustr ''2+2?'') (ustr ''4''))
       \<lparr>conversation_history :=
          [\<lparr>role = System, content = ustr ''Tutor the user on 2+2? (answer: 4).''\<rparr>,
           \<lparr>role = User, content = ustr ''four''\<rparr>]\<rparr>"

definition broken_stream :: response where
  \<open>broken_stream =
     \<lparr>status_code = 200,
      json_result = Inl (OtherException (ustr ''not read'')),
      iter_lines = [''data: {"choices":[{"delta":{"content":"Hel"}}]}''],
      iter_failure = Some (OtherException (ustr ''Connection broken''))\<rparr>\<close>

definition think_only_stream :: response where
  \<open>think_only_stream =
     \<lparr>status_code = 200,
      json_result = Inl (OtherException (ustr ''not read'')),
      iter_lines = [''data: {"choices":[{"delta":{"content":"<think>x</think>"}}]}'', ''data: [DONE]''],
      iter_failure = None\<rparr>\<close>

text \<open>
  The three lines of the specification's decoder example; the same lines behind a blank
  line, a comment line and a payload that is not JSON; and a stream whose first payload
  is the JSON number 5.
\<close>

definition example_lines :: "string list" where
  \<open>example_lines =
     [''data: {"choices":[{"delta":{"content":"Hel"}}]}'',
      ''data: {"choices":[{"delta":{"content":"lo"}}]}'',
      ''data: [DONE]'']\<close>

definition noisy_lines :: "string list" where
  \<open>noisy_lines =
     [[],
      '': keep-alive'',
      ''data: {"choices":[{"delta":{"content":"Hel"}}]}'',
      ''data: not-json'',
      ''data: {"choices":[{"delta":{"content":"lo"}}]}'',
      ''data: [DONE]'']\<close>

definition number_first_lines :: "string list" where
  \<open>number_first_lines =
     [''data: 5'',
      ''data: {"choices":[{"delta":{"content":"Hel"}}]}'']\<close>

text \<open>
  The response that streams the three lines of the example, and a session whose
  configuration selects the hosted provider without an API key.
\<close>

definition example_stream :: response where
  "example_stream =
     \<lparr>status_code = 200,
      json_result = Inl (OtherException (ustr ''not read'')),
      iter_lines = example_lines,
      iter_failure = None\<rparr>"

definition hosted_without_key :: quiz where
  "hosted_without_key =
     sample_session
       \<lparr>config := default_config\<lparr>cfg_use_openai := Some True, cfg_openai_api_key := Some []\<rparr>\<rparr>"



section \<open>Theorems\<close>

subsection \<open>Strings\<close>








subsection \<open>Tags\<close>






subsection \<open>Reasoning spans\<close>





subsection \<open>The post-processor as a whole\<close>







lemma has_choices_obj:
  "has_choices (JObj kvs) =
     Inr (case map_of kvs (ustr ''choices'') of None \<Rightarrow> False | Some c \<Rightarrow> truthy c)"
  by (simp add: has_choices_def ebind_def split: option.splits)

lemma extract_no_choices:
  assumes "map_of kvs (ustr ''choices'') = None \<or> (\<exists>c. map_of kvs (ustr ''choices'') = Some c \<and> \<not> truthy c)"
  shows "extract_response_text (JObj kvs) = Inr (JStr unexpected_format)"
  using assms by (auto simp: extract_response_text_def has_choices_obj ebind_def)

lemma extract_message_content:
  assumes "map_of kvs (ustr ''choices'') = Some (JArr (JObj first # others))"
    and "map_of first (ustr ''message'') = Some (JObj mkvs)"
    and "map_of mkvs (ustr ''content'') = Some v"
  shows "extract_response_text (JObj kvs) = Inr v"
  using assms by (simp add: extract_response_text_def has_choices_obj ebind_def)

lemma extract_text:
  assumes "map_of kvs (ustr ''choices'') = Some (JArr (JObj first # others))"
    and "map_of first (ustr ''message'') = None"
    and "map_of first (ustr ''text'') = Some v"
  shows "extract_response_text (JObj kvs) = Inr v"
  using assms by (simp add: extract_response_text_def has_choices_obj ebind_def)

lemma extract_neither:
  assumes "map_of kvs (ustr ''choices'') = Some (JArr (JObj first # others))"
    and "map_of first (ustr ''message'') = None"
    and "map_of first (ustr ''text'') = None"
  shows "extract_response_text (JObj kvs) = Inr (JStr unexpected_format)"
  using assms by (simp add: extract_response_text_def has_choices_obj ebind_def)

lemma clean_unexpected_format: "clean_response_text unexpected_format = unexpected_format"
  by (simp add: unexpected_format_def clean_response_text_def ustr_def think_open_def
      think_close_def chr_lt_def chr_gt_def lstrip_chars_def strip_def lstrip_def rstrip_def
      isspace_def)

lemma add_unexpected_format:
  "add_assistant_response lib unexpected_format s =
     emit (ChatAppend (ustr ''<b>Quiz:</b> '' @ unexpected_format))
       (append_history Assistant unexpected_format s)"
proof -
  have low: "lower (unicode_lower lib) unexpected_format = map ascii_lower unexpected_format"
    by (simp add: lower_def unexpected_format_def ustr_def)
  have no_q: "\<not> startswith (map ascii_lower unexpected_format) (ustr ''question:'')"
    by (simp add: startswith_def unexpected_format_def ustr_def ascii_lower_def)
  have one_line: "split (of_char CHR ''\<newline>'') unexpected_format = [unexpected_format]"
    by (simp add: unexpected_format_def ustr_def)
  have ne: "strip unexpected_format \<noteq> []"
    by (simp add: unexpected_format_def ustr_def strip_def lstrip_def rstrip_def isspace_def)
  show ?thesis
    unfolding add_assistant_response_def Let_def clean_unexpected_format
    using low no_q one_line ne by simp
qed


lemma process_unexpected_format:
  assumes "cfg_stream_responses (config s) = Some False"
    and "0 < get_or (cfg_max_retries (config s)) 3"
    and "net 0 = PostReturns resp"
    and "status_code resp = 200"
    and "json_result resp = Inr result"
    and "extract_response_text result = Inr (JStr unexpected_format)"
  shows "process_response lib net s =
     emit (SendEnabled True)
       (emit (ChatAppend (ustr ''<b>Quiz:</b> '' @ unexpected_format))
          (append_history Assistant unexpected_format
             (emit (HttpPost (build_request (config s) (conversation_history s))) s)))"
proof -
  have "try_body lib (net 0) s =
      (None, emit (ChatAppend (ustr ''<b>Quiz:</b> '' @ unexpected_format))
          (append_history Assistant unexpected_format
             (emit (HttpPost (build_request (config s) (conversation_history s))) s)))"
    using assms by (simp add: try_body_def get_or_def add_unexpected_format)
  then show ?thesis
    unfolding process_response_def
    using assms(2) by (subst process_loop.simps) simp
qed

text \<open>
  C10, as amended. On a response that is a JSON object: without a true \<open>choices\<close> entry
  the result is the fixed text; with \<open>choices\<close> a non-empty array that starts with an
  object, the result is the \<open>content\<close> of its \<open>message\<close> object when there is one, its
  \<open>text\<close> when it has no \<open>message\<close> but a \<open>text\<close>, and the fixed text when it has neither.
  In the non-streaming path the fixed text is handled as a reply: it is cleaned,
  filtered, appended to the history as an assistant message and shown as one, and no
  error entry is written.
\<close>

theorem extract_response_text_on_expected_shapes:
  "(map_of kvs (ustr ''choices'') = None
      \<or> (\<exists>c. map_of kvs (ustr ''choices'') = Some c \<and> \<not> truthy c)
    \<longrightarrow> extract_response_text (JObj kvs) = Inr (JStr unexpected_format))
   \<and> (map_of kvs (ustr ''choices'') = Some (JArr (JObj first # others)) \<longrightarrow>
        (\<forall>mkvs v. map_of first (ustr ''message'') = Some (JObj mkvs)
                  \<and> map_of mkvs (ustr ''content'') = Some v
            \<longrightarrow> extract_response_text (JObj kvs) = Inr v)
        \<and> (\<forall>v. map_of first (ustr ''message'') = None \<and> map_of first (ustr ''text'') = Some v
            \<longrightarrow> extract_response_text (JObj kvs) = Inr v)
        \<and> (map_of first (ustr ''message'') = None \<and> map_of first (ustr ''text'') = None
            \<longrightarrow> extract_response_text (JObj kvs) = Inr (JStr unexpected_format)))
   \<and> (cfg_stream_responses (config s) = Some False
        \<and> 0 < get_or (cfg_max_retries (config s)) 3
        \<and> net 0 = PostReturns resp \<and> status_code resp = 200
        \<and> json_result resp = Inr result
        \<and> extract_response_text result = Inr (JStr unexpected_format)
      \<longrightarrow> process_response lib net s =
            emit (SendEnabled True)
              (emit (ChatAppend (ustr ''<b>Quiz:</b> '' @ unexpected_format))
                 (append_history Assistant unexpected_format
                    (emit (HttpPost (build_request (config s) (conversation_history s))) s))))"
  using extract_no_choices[of kvs] extract_message_content[of kvs first others]
    extract_text[of kvs first others] extract_neither[of kvs first others]
    process_unexpected_format[of s net resp result lib]
  by blast

text \<open>
  The claim as stated fails: a first choice whose \<open>message\<close> has no \<open>content\<close> raises
  \<^verbatim>\<open>KeyError\<close>, also when a \<open>text\<close> stands beside it.
\<close>

theorem extract_response_text_counterexample:
  "extract_response_text
     (JObj [(ustr ''choices'',
             JArr [JObj [(ustr ''message'', JObj [(ustr ''role'', JStr (ustr ''assistant''))]),
                         (ustr ''text'', JStr (ustr ''hi''))]])])
   = Inl (KeyError (JStr (ustr ''content'')))"
  by (simp add: extract_response_text_def has_choices_def ebind_def ustr_def)

theorem extract_response_text_witness:
  "extract_response_text (JObj [(ustr ''error'', JStr (ustr ''overloaded''))])
     = Inr (JStr unexpected_format)
   \<and> extract_response_text
       (JObj [(ustr ''choices'',
               JArr [JObj [(ustr ''message'', JObj [(ustr ''content'', JStr (ustr ''Right.''))])]])])
     = Inr (JStr (ustr ''Right.''))
   \<and> extract_response_text
       (JObj [(ustr ''choices'', JArr [JObj [(ustr ''text'', JStr (ustr ''Right.''))]])])
     = Inr (JStr (ustr ''Right.''))
   \<and> extract_response_text
       (JObj [(ustr ''choices'', JArr [JObj [(ustr ''index'', JInt 0)]])])
     = Inr (JStr unexpected_format)
   \<and> conversation_history
       (process_response sample_lib
          (\<lambda>n. PostReturns \<lparr>status_code = 200, json_result = Inr (JObj []), iter_lines = [],
                             iter_failure = None\<rparr>)
          (init_quiz (default_config\<lparr>cfg_stream_responses := Some False\<rparr>) (ustr ''2+2?'') (ustr ''4'')))
     = [\<lparr>role = Assistant, content = unexpected_format\<rparr>]"
proof -
  let ?msg = "[(ustr ''message'', JObj [(ustr ''content'', JStr (ustr ''Right.''))])]"
  let ?txt = "[(ustr ''text'', JStr (ustr ''Right.''))]"
  let ?idx = "[(ustr ''index'', JInt 0)]"
  let ?resp = "\<lparr>status_code = 200, json_result = Inr (JObj []), iter_lines = [],
                 iter_failure = None\<rparr>"
  let ?s = "init_quiz (default_config\<lparr>cfg_stream_responses := Some False\<rparr>) (ustr ''2+2?'') (ustr ''4'')"
  have a: "extract_response_text (JObj [(ustr ''error'', JStr (ustr ''overloaded''))])
     = Inr (JStr unexpected_format)"
    using extract_response_text_on_expected_shapes
      [of "[(ustr ''error'', JStr (ustr ''overloaded''))]"]
    by (simp add: ustr_def)
  have b: "extract_response_text (JObj [(ustr ''choices'', JArr [JObj ?msg])])
     = Inr (JStr (ustr ''Right.''))"
    using extract_response_text_on_expected_shapes
      [of "[(ustr ''choices'', JArr [JObj ?msg])]" ?msg "[]"]
    by (simp add: ustr_def)
  have c: "extract_response_text (JObj [(ustr ''choices'', JArr [JObj ?txt])])
     = Inr (JStr (ustr ''Right.''))"
    using extract_response_text_on_expected_shapes
      [of "[(ustr ''choices'', JArr [JObj ?txt])]" ?txt "[]"]
    by (simp add: ustr_def)
  have d: "extract_response_text (JObj [(ustr ''choices'', JArr [JObj ?idx])])
     = Inr (JStr unexpected_format)"
    using extract_response_text_on_expected_shapes
      [of "[(ustr ''choices'', JArr [JObj ?idx])]" ?idx "[]"]
    by (simp add: ustr_def)
  have e0: "extract_response_text (JObj []) = Inr (JStr unexpected_format)"
    using extract_response_text_on_expected_shapes [of "[]"] by simp
  have e: "conversation_history (process_response sample_lib (\<lambda>n. PostReturns ?resp) ?s)
     = [\<lparr>role = Assistant, content = unexpected_format\<rparr>]"
    using extract_response_text_on_expected_shapes
      [of _ _ _ ?s "\<lambda>n. PostReturns ?resp" ?resp "JObj []" sample_lib] e0
    by (simp add: init_quiz_def default_config_def get_or_def emit_def append_history_def)
  show ?thesis using a b c d e by simp
qed

subsection \<open>Decoding\<close>

lemma utf8_decode_ascii:
  "list_all (\<lambda>b. (of_char b :: nat) < 0x80) line \<Longrightarrow> utf8_decode line = Some (ustr line)"
proof (induction line)
  case Nil
  then show ?case by (simp add: ustr_def)
next
  case (Cons b bs)
  then have "utf8_width (of_char b) = 1" by (simp add: utf8_width_def)
  then show ?case using Cons by (simp add: utf8_point_def ustr_def)
qed

subsection \<open>The streaming path\<close>

lemma stream_loop_history:
  "stream_loop lib lines full s = (raised, full', s') \<Longrightarrow>
     conversation_history s' = conversation_history s"
proof (induction lines arbitrary: full s)
  case Nil
  then show ?case by simp
next
  case (Cons line rest)
  then show ?case
    by (auto simp: emit_def split: if_splits option.splits sum.splits)
qed

lemma handle_stream_response_history:
  "conversation_history (handle_stream_response lib resp s) =
     conversation_history s @
       (case stream_loop lib (iter_lines resp) []
               (emit (ChatAppend (ustr ''<b>Quiz:</b> '')) (s\<lparr>is_streaming := True\<rparr>)) of
          (raised, full_response, s') \<Rightarrow>
            if full_response = [] then []
            else [\<lparr>role = Assistant, content = clean_response_text full_response\<rparr>])"
proof -
  obtain raised full s' where
    loop: "stream_loop lib (iter_lines resp) []
             (emit (ChatAppend (ustr ''<b>Quiz:</b> '')) (s\<lparr>is_streaming := True\<rparr>)) = (raised, full, s')"
    by (metis prod_cases3)
  have "conversation_history s' = conversation_history s"
    using stream_loop_history[OF loop] by (simp add: emit_def)
  then show ?thesis
    unfolding handle_stream_response_def Let_def loop
    by (simp add: append_history_def emit_def split: option.splits)
qed


lemma handle_stream_response_effects:
  assumes "stream_loop lib (iter_lines resp) []
             (emit (ChatAppend (ustr ''<b>Quiz:</b> '')) (s\<lparr>is_streaming := True\<rparr>))
           = (raised, full_response, s')"
  shows "effects (handle_stream_response lib resp s) =
     effects s' @
       (case (case raised of None \<Rightarrow> iter_failure resp | Some e \<Rightarrow> Some e) of
          None \<Rightarrow> []
        | Some e \<Rightarrow> [ChatAppendStreamError e])"
  unfolding handle_stream_response_def Let_def assms
  by (simp add: append_history_def emit_def split: option.splits)

lemma chunk_content_delta_chunk:
  "chunk_content (delta_chunk text) = Inr (if text = [] then None else Some text)"
  by (simp add: chunk_content_def delta_chunk_def has_choices_def ebind_def ustr_def)

lemma sample_loads_values:
  \<open>sample_loads (ustr ''{"choices":[{"delta":{"content":"Hel"}}]}'') = Inr (delta_chunk (ustr ''Hel''))\<close>
  \<open>sample_loads (ustr ''{"choices":[{"delta":{"content":"lo"}}]}'') = Inr (delta_chunk (ustr ''lo''))\<close>
  \<open>sample_loads (ustr ''{"choices":[{"delta":{"content":"<think>x</think>"}}]}'')
     = Inr (delta_chunk (ustr ''<think>x</think>''))\<close>
  \<open>sample_loads (ustr ''5'') = Inr (JInt 5)\<close>
  \<open>sample_loads (ustr ''[DONE]'') = Inl JSONDecodeError\<close>
  \<open>sample_loads (ustr ''not-json'') = Inl JSONDecodeError\<close>
  by (simp_all add: sample_loads_def sample_values_def ustr_def)

lemma stream_loop_data_line:
  assumes "line \<noteq> []" and "utf8_decode line = Some (ustr ''data: '' @ payload)"
  shows "stream_loop lib (line # rest) full s =
     (case json_loads lib payload of
        Inl e \<Rightarrow> if e = JSONDecodeError then stream_loop lib rest full s else (Some e, full, s)
      | Inr json_data \<Rightarrow>
          (case chunk_content json_data of
             Inl e \<Rightarrow> (Some e, full, s)
           | Inr None \<Rightarrow> stream_loop lib rest full s
           | Inr (Some delta_text) \<Rightarrow>
               stream_loop lib rest (full @ delta_text) (emit (InsertText delta_text) s)))"
proof -
  have "startswith (ustr ''data: '' @ payload) (ustr ''data: '')"
    by (simp add: startswith_def)
  moreover have "drop 6 (ustr ''data: '' @ payload) = payload"
    by (simp add: ustr_def)
  ultimately show ?thesis using assms by simp
qed

lemma ascii_data_line:
  assumes "list_all (\<lambda>b. (of_char b :: nat) < 0x80) payload"
  shows "utf8_decode (''data: '' @ payload) = Some (ustr ''data: '' @ ustr payload)"
  using assms by (subst utf8_decode_ascii) (simp_all add: ustr_def)

lemma broken_stream_loop:
  "stream_loop sample_lib (iter_lines broken_stream) [] s
    = (None, ustr ''Hel'', emit (InsertText (ustr ''Hel'')) s)"
proof -
  have d: \<open>utf8_decode (''data: '' @ ''{"choices":[{"delta":{"content":"Hel"}}]}'')
      = Some (ustr ''data: '' @ ustr ''{"choices":[{"delta":{"content":"Hel"}}]}'')\<close>
    by (rule ascii_data_line) simp
  show ?thesis
    unfolding broken_stream_def
    using stream_loop_data_line[OF _ d, of sample_lib "[]" "[]" s]
    by (simp add: sample_lib_def sample_loads_def sample_values_def chunk_content_delta_chunk
        ustr_def)
qed

lemma think_only_stream_loop:
  "stream_loop sample_lib (iter_lines think_only_stream) [] s
    = (None, ustr ''<think>x</think>'', emit (InsertText (ustr ''<think>x</think>'')) s)"
proof -
  have d1: \<open>utf8_decode (''data: '' @ ''{"choices":[{"delta":{"content":"<think>x</think>"}}]}'')
      = Some (ustr ''data: '' @ ustr ''{"choices":[{"delta":{"content":"<think>x</think>"}}]}'')\<close>
    by (rule ascii_data_line) simp
  have d2: "utf8_decode (''data: '' @ ''[DONE]'') = Some (ustr ''data: '' @ ustr ''[DONE]'')"
    by (rule ascii_data_line) simp
  have last: "stream_loop sample_lib [''data: [DONE]''] full s' = (None, full, s')" for full s'
    using stream_loop_data_line[OF _ d2, of sample_lib "[]" full s']
    by (simp add: sample_lib_def sample_loads_def sample_values_def ustr_def)
  show ?thesis
    unfolding think_only_stream_def
    using stream_loop_data_line[OF _ d1, of sample_lib "[''data: [DONE]'']" "[]" s] last
    by (simp add: sample_lib_def sample_loads_def sample_values_def chunk_content_delta_chunk
        ustr_def)
qed

text \<open>
  C1, as amended. When the transport fails in mid-stream, the failure is shown in the
  chat. The turn leaves the history as it was when no text had been accumulated; when the
  text accumulated so far has a non-empty cleaned form, the turn appends exactly one
  assistant message, that cleaned text.
\<close>

theorem streaming_failure_keeps_accumulated_text:
  assumes "iter_failure resp = Some e"
    and "stream_loop lib (iter_lines resp) []
           (emit (ChatAppend (ustr ''<b>Quiz:</b> '')) (s\<lparr>is_streaming := True\<rparr>))
         = (raised, full_response, s')"
  shows "(full_response = [] \<longrightarrow>
            conversation_history (handle_stream_response lib resp s) = conversation_history s)
         \<and> (clean_response_text full_response \<noteq> [] \<longrightarrow>
            conversation_history (handle_stream_response lib resp s) =
              conversation_history s
              @ [\<lparr>role = Assistant, content = clean_response_text full_response\<rparr>])
         \<and> effects (handle_stream_response lib resp s) =
             effects s' @ [ChatAppendStreamError (case raised of None \<Rightarrow> e | Some e' \<Rightarrow> e')]"
proof -
  have "clean_response_text [] = []"
    by (simp add: clean_response_text_def lstrip_chars_def strip_def lstrip_def rstrip_def)
  then have "clean_response_text full_response \<noteq> [] \<longrightarrow> full_response \<noteq> []"
    by auto
  then show ?thesis
    using handle_stream_response_history[of lib resp s]
      handle_stream_response_effects[OF assms(2)] assms
    by (simp split: option.splits)
qed

text \<open>
  The claim as stated fails: one chunk arrives, then the connection breaks, and the
  history has grown by the truncated reply.
\<close>

theorem streaming_failure_counterexample:
  "conversation_history (handle_stream_response sample_lib broken_stream sample_session)
     = conversation_history sample_session @ [\<lparr>role = Assistant, content = ustr ''Hel''\<rparr>]
   \<and> conversation_history (handle_stream_response sample_lib broken_stream sample_session)
     \<noteq> conversation_history sample_session"
proof -
  have "clean_response_text (ustr ''Hel'') = ustr ''Hel''"
    by (simp add: clean_response_text_def ustr_def think_open_def think_close_def chr_lt_def
        chr_gt_def lstrip_chars_def strip_def lstrip_def rstrip_def isspace_def)
  then show ?thesis
    by (simp add: handle_stream_response_history broken_stream_loop) (simp add: ustr_def)
qed

theorem streaming_failure_witness:
  "iter_failure broken_stream = Some (OtherException (ustr ''Connection broken''))
   \<and> clean_response_text (ustr ''Hel'') = ustr ''Hel''
   \<and> conversation_history (handle_stream_response sample_lib broken_stream sample_session)
     = conversation_history sample_session @ [\<lparr>role = Assistant, content = ustr ''Hel''\<rparr>]
   \<and> effects (handle_stream_response sample_lib broken_stream sample_session)
     = [ChatAppend (ustr ''<b>Quiz:</b> ''), InsertText (ustr ''Hel''),
        ChatAppendStreamError (OtherException (ustr ''Connection broken''))]
   \<and> conversation_history
       (handle_stream_response sample_lib
          (broken_stream\<lparr>iter_lines := [''data: [DONE]'']\<rparr>) sample_session)
     = conversation_history sample_session"
proof -
  have f: "iter_failure broken_stream = Some (OtherException (ustr ''Connection broken''))"
    by (simp add: broken_stream_def)
  have c: "clean_response_text (ustr ''Hel'') = ustr ''Hel''"
    by (simp add: clean_response_text_def ustr_def think_open_def think_close_def chr_lt_def
        chr_gt_def lstrip_chars_def strip_def lstrip_def rstrip_def isspace_def)
  have ne: "ustr ''Hel'' \<noteq> []" by (simp add: ustr_def)
  have a: "conversation_history (handle_stream_response sample_lib broken_stream sample_session)
       = conversation_history sample_session @ [\<lparr>role = Assistant, content = ustr ''Hel''\<rparr>]
     \<and> effects (handle_stream_response sample_lib broken_stream sample_session)
       = [ChatAppend (ustr ''<b>Quiz:</b> ''), InsertText (ustr ''Hel''),
          ChatAppendStreamError (OtherException (ustr ''Connection broken''))]"
    using streaming_failure_keeps_accumulated_text[OF f broken_stream_loop, of sample_session]
      c ne
    by (simp add: emit_def sample_session_def init_quiz_def)
  let ?done = "broken_stream\<lparr>iter_lines := [''data: [DONE]'']\<rparr>"
  have f': "iter_failure ?done = Some (OtherException (ustr ''Connection broken''))"
    by (simp add: broken_stream_def)
  have d: "utf8_decode (''data: '' @ ''[DONE]'') = Some (ustr ''data: '' @ ustr ''[DONE]'')"
    by (rule ascii_data_line) simp
  have l: "stream_loop sample_lib (iter_lines ?done) [] s' = (None, [], s')" for s'
    using stream_loop_data_line[OF _ d, of sample_lib "[]" "[]" s']
    by (simp add: sample_lib_def sample_loads_def sample_values_def ustr_def)
  have b: "conversation_history (handle_stream_response sample_lib ?done sample_session)
     = conversation_history sample_session"
    using streaming_failure_keeps_accumulated_text[OF f' l, of sample_session]
    by simp
  show ?thesis using f c a b by simp
qed

subsection \<open>Replies that clean to nothing\<close>

lemma add_assistant_response_clean_empty:
  assumes "clean_response_text response = []"
  shows "add_assistant_response lib response s = s"
proof -
  have low: "lower (unicode_lower lib) [] = []" by (simp add: lower_def)
  have nq: "\<not> startswith [] (ustr ''question:'')" by (simp add: startswith_def ustr_def)
  have j: "join (ustr ''\<newline>'') (filter P (split (of_char CHR ''\<newline>'') [])) = []" for P
    by simp
  have st: "strip [] = []" by (simp add: strip_def lstrip_def rstrip_def)
  show ?thesis
    unfolding add_assistant_response_def Let_def assms
    by (simp add: low nq j st)
qed

text \<open>
  C3 at its failing input. The streamed reply is one reasoning span: its cleaned form is
  empty, and the streaming path appends an assistant message with empty content. (The
  non-streaming path appends nothing: \<open>add_assistant_response_clean_empty\<close>.)
\<close>

theorem streaming_commits_empty_reply:
  "clean_response_text (ustr ''<think>x</think>'') = []
   \<and> conversation_history (handle_stream_response sample_lib think_only_stream sample_session)
     = conversation_history sample_session @ [\<lparr>role = Assistant, content = []\<rparr>]"
proof -
  have c: "clean_response_text (ustr ''<think>x</think>'') = []"
    by (simp add: clean_response_text_def ustr_def think_open_def think_close_def chr_lt_def
        chr_gt_def lstrip_chars_def strip_def lstrip_def rstrip_def isspace_def)
  have ne: "ustr ''<think>x</think>'' \<noteq> []" by (simp add: ustr_def)
  show ?thesis
    using c ne by (simp add: handle_stream_response_history think_only_stream_loop)
qed

subsection \<open>The stream decoder\<close>

lemma stream_loop_step:
  "stream_loop lib (line # rest) full s =
     (case payload_of lib line of
        None \<Rightarrow> stream_loop lib rest full s
      | Some (Inl e) \<Rightarrow>
          if e = JSONDecodeError then stream_loop lib rest full s else (Some e, full, s)
      | Some (Inr json_data) \<Rightarrow>
          (case chunk_content json_data of
             Inl e \<Rightarrow> (Some e, full, s)
           | Inr None \<Rightarrow> stream_loop lib rest full s
           | Inr (Some delta_text) \<Rightarrow>
               stream_loop lib rest (full @ delta_text) (emit (InsertText delta_text) s)))"
  by (simp add: payload_of_def split: option.splits sum.splits)

lemma delta_shaped_content:
  assumes "delta_shaped d"
  shows "ebind (py_get d (ustr ''content'') (JStr [])) (\<lambda>c.
           if truthy c then (case c of JStr text \<Rightarrow> Inr (Some text) | _ \<Rightarrow> Inl TypeError)
           else Inr None)
         = Inr (case d of
                  JObj delta \<Rightarrow>
                    (case map_of delta (ustr ''content'') of
                       Some (JStr text) \<Rightarrow> if text = [] then None else Some text
                     | _ \<Rightarrow> None)
                | _ \<Rightarrow> None)"
  using assms
  by (cases d) (auto simp: delta_shaped_def ebind_def is_str_def split: option.splits json.splits)

lemma chunk_shaped_content: "chunk_shaped j \<Longrightarrow> chunk_content j = Inr (spec_lookup j)"
proof -
  assume sh: "chunk_shaped j"
  show ?thesis
  proof (cases "\<exists>kvs. j = JObj kvs")
    case False
    then show ?thesis
      using sh
      by (cases j)
         (simp_all add: chunk_shaped_def chunk_content_def has_choices_def ebind_def
            spec_lookup_def)
  next
    case True
    then obtain kvs where j: "j = JObj kvs" by blast
    show ?thesis
    proof (cases "map_of kvs (ustr ''choices'')")
    case None
    then show ?thesis
      by (simp add: j chunk_content_def has_choices_def ebind_def spec_lookup_def)
  next
    case (Some c)
    show ?thesis
    proof (cases "truthy c")
      case False
      then have "spec_lookup j = None"
        using Some by (auto simp: j spec_lookup_def split: json.splits list.splits)
      then show ?thesis
        using False Some by (simp add: j chunk_content_def has_choices_def ebind_def)
    next
      case True
      then have "choices_shaped c" using sh Some by (simp add: j chunk_shaped_def)
      then obtain first others where c: "c = JArr (JObj first # others)"
        and d: "case map_of first (ustr ''delta'') of None \<Rightarrow> True | Some d \<Rightarrow> delta_shaped d"
        by (auto simp: choices_shaped_def split: json.splits list.splits)
      show ?thesis
      proof (cases "map_of first (ustr ''delta'')")
        case None
        then show ?thesis
          using Some c
          by (simp add: j chunk_content_def has_choices_def ebind_def spec_lookup_def)
      next
        case (Some dl)
        then have ds: "delta_shaped dl" using d by simp
        have "chunk_content j =
            ebind (py_get dl (ustr ''content'') (JStr [])) (\<lambda>c.
              if truthy c then (case c of JStr text \<Rightarrow> Inr (Some text) | _ \<Rightarrow> Inl TypeError)
              else Inr None)"
          using \<open>map_of kvs (ustr ''choices'') = Some c\<close> c Some
          by (simp add: j chunk_content_def has_choices_def ebind_def)
        also have "\<dots> = Inr (spec_lookup j)"
          unfolding delta_shaped_content[OF ds]
          using \<open>map_of kvs (ustr ''choices'') = Some c\<close> c Some
          by (simp add: j spec_lookup_def)
        finally show ?thesis .
      qed
    qed
  qed
qed
qed

lemma stream_loop_decodes:
  assumes "\<forall>line \<in> set lines. line_shaped lib line"
  shows "stream_loop lib lines full s =
     (None, full @ concat (spec_decode lib lines),
      s\<lparr>effects := effects s @ map InsertText (spec_decode lib lines)\<rparr>)"
  using assms
proof (induction lines arbitrary: full s)
  case Nil
  then show ?case by (simp add: spec_decode_def map_filter_simps)
next
  case (Cons line rest)
  then have rest: "\<forall>line \<in> set rest. line_shaped lib line" by simp
  show ?case
  proof (cases "payload_of lib line")
    case None
    then have "spec_decode lib (line # rest) = spec_decode lib rest"
      by (simp add: spec_decode_def spec_delta_def map_filter_simps)
    then show ?thesis
      using None Cons.IH[OF rest] by (simp add: stream_loop_step del: stream_loop.simps)
  next
    case (Some r)
    show ?thesis
    proof (cases r)
      case (Inl e)
      then have e: "e = JSONDecodeError" using Some Cons.prems by (simp add: line_shaped_def)
      have "spec_decode lib (line # rest) = spec_decode lib rest"
        using Some Inl by (simp add: spec_decode_def spec_delta_def map_filter_simps)
      then show ?thesis
        using Some Inl e Cons.IH[OF rest]
        by (simp add: stream_loop_step del: stream_loop.simps)
    next
      case (Inr j)
      then have "chunk_shaped j" using Some Cons.prems by (simp add: line_shaped_def)
      then have cc: "chunk_content j = Inr (spec_lookup j)" by (rule chunk_shaped_content)
      show ?thesis
      proof (cases "spec_lookup j")
        case None
        then have "spec_decode lib (line # rest) = spec_decode lib rest"
          using Some Inr by (simp add: spec_decode_def spec_delta_def map_filter_simps)
        then show ?thesis
          using None Some Inr cc Cons.IH[OF rest]
          by (simp add: stream_loop_step del: stream_loop.simps)
      next
        case found: (Some t)
        then have "spec_decode lib (line # rest) = t # spec_decode lib rest"
          using Some Inr by (simp add: spec_decode_def spec_delta_def map_filter_simps)
        then show ?thesis
          using found Some Inr cc Cons.IH[OF rest]
          by (simp add: stream_loop_step emit_def del: stream_loop.simps)
      qed
    qed
  qed
qed

lemma payload_of_ascii:
  assumes "list_all (\<lambda>b. (of_char b :: nat) < 0x80) line"
  shows "payload_of lib line =
     (if startswith (ustr line) (ustr ''data: '') then Some (json_loads lib (drop 6 (ustr line)))
      else None)"
  using assms by (auto simp: payload_of_def utf8_decode_ascii startswith_def ustr_def)

lemma chunk_shaped_delta_chunk: "chunk_shaped (delta_chunk text)"
  by (simp add: chunk_shaped_def choices_shaped_def delta_shaped_def is_str_def delta_chunk_def
      ustr_def)

lemma spec_lookup_delta_chunk:
  "spec_lookup (delta_chunk text) = (if text = [] then None else Some text)"
  by (simp add: spec_lookup_def delta_chunk_def ustr_def)

lemma example_lines_payloads:
  \<open>payload_of lib ''data: {"choices":[{"delta":{"content":"Hel"}}]}'' = Some (json_loads lib (ustr ''{"choices":[{"delta":{"content":"Hel"}}]}''))\<close>
  \<open>payload_of lib ''data: {"choices":[{"delta":{"content":"lo"}}]}'' = Some (json_loads lib (ustr ''{"choices":[{"delta":{"content":"lo"}}]}''))\<close>
  \<open>payload_of lib ''data: [DONE]'' = Some (json_loads lib (ustr ''[DONE]''))\<close>
  by (simp_all add: payload_of_ascii startswith_def ustr_def)

lemma example_decodes:
  assumes \<open>json_loads lib (ustr ''{"choices":[{"delta":{"content":"Hel"}}]}'') = Inr (delta_chunk (ustr ''Hel''))\<close>
    and \<open>json_loads lib (ustr ''{"choices":[{"delta":{"content":"lo"}}]}'') = Inr (delta_chunk (ustr ''lo''))\<close>
    and \<open>json_loads lib (ustr ''[DONE]'') = Inl JSONDecodeError\<close>
  shows "spec_decode lib example_lines = [ustr ''Hel'', ustr ''lo'']"
    and "\<forall>line \<in> set example_lines. line_shaped lib line"
proof -
  have ne: "ustr ''Hel'' \<noteq> []" "ustr ''lo'' \<noteq> []" by (simp_all add: ustr_def)
  show "spec_decode lib example_lines = [ustr ''Hel'', ustr ''lo'']"
    unfolding example_lines_def
    by (simp add: spec_decode_def spec_delta_def map_filter_simps example_lines_payloads assms
          spec_lookup_delta_chunk ne)
  show "\<forall>line \<in> set example_lines. line_shaped lib line"
    unfolding example_lines_def
    by (simp add: line_shaped_def example_lines_payloads assms chunk_shaped_delta_chunk)
qed

lemma clean_hello: "clean_response_text (ustr ''Hello'') = ustr ''Hello''"
  by (simp add: clean_response_text_def ustr_def think_open_def think_close_def chr_lt_def
      chr_gt_def lstrip_chars_def strip_def lstrip_def rstrip_def isspace_def)

lemma example_finalized:
  assumes \<open>json_loads lib (ustr ''{"choices":[{"delta":{"content":"Hel"}}]}'') = Inr (delta_chunk (ustr ''Hel''))\<close>
    and \<open>json_loads lib (ustr ''{"choices":[{"delta":{"content":"lo"}}]}'') = Inr (delta_chunk (ustr ''lo''))\<close>
    and \<open>json_loads lib (ustr ''[DONE]'') = Inl JSONDecodeError\<close>
    and "iter_lines resp = example_lines"
  shows "stream_loop lib example_lines [] s =
           (None, ustr ''Hello'',
            s\<lparr>effects := effects s @ [InsertText (ustr ''Hel''), InsertText (ustr ''lo'')]\<rparr>)"
    and "conversation_history (handle_stream_response lib resp s) =
           conversation_history s @ [\<lparr>role = Assistant, content = ustr ''Hello''\<rparr>]"
proof -
  have cat: "ustr ''Hel'' @ ustr ''lo'' = ustr ''Hello''" by (simp add: ustr_def)
  have ne: "ustr ''Hello'' \<noteq> []" by (simp add: ustr_def)
  show loop: "stream_loop lib example_lines [] s' =
           (None, ustr ''Hello'',
            s'\<lparr>effects := effects s' @ [InsertText (ustr ''Hel''), InsertText (ustr ''lo'')]\<rparr>)" for s'
    using stream_loop_decodes[OF example_decodes(2)[OF assms(1-3)], of "[]" s']
    by (simp add: example_decodes(1)[OF assms(1-3)] cat)
  show "conversation_history (handle_stream_response lib resp s) =
           conversation_history s @ [\<lparr>role = Assistant, content = ustr ''Hello''\<rparr>]"
    by (simp add: handle_stream_response_history assms(4) loop clean_hello ne)
qed

lemma stream_loop_parser_raises:
  assumes "payload_of lib line = Some (Inl e)" and "e \<noteq> JSONDecodeError"
  shows "stream_loop lib (line # rest) full s = (Some e, full, s)"
  using assms by (simp add: stream_loop_step del: stream_loop.simps)

lemma py_get_not_obj: "(\<forall>kvs. v \<noteq> JObj kvs) \<Longrightarrow> py_get v key dflt = Inl AttributeError"
  by (cases v) simp_all

lemma delta_unshaped_raises:
  assumes "\<not> delta_shaped d"
  shows "\<exists>e. ebind (py_get d (ustr ''content'') (JStr [])) (\<lambda>c.
           if truthy c then (case c of JStr text \<Rightarrow> Inr (Some text) | _ \<Rightarrow> Inl TypeError)
           else Inr None) = Inl e"
proof (cases "\<exists>delta. d = JObj delta")
  case False
  then have "py_get d (ustr ''content'') (JStr []) = Inl AttributeError"
    by (intro py_get_not_obj) simp
  then show ?thesis by (simp add: ebind_def)
next
  case True
  then obtain delta where d: "d = JObj delta" by blast
  then obtain v where v: "map_of delta (ustr ''content'') = Some v" "truthy v" "\<not> is_str v"
    using assms by (auto simp: delta_shaped_def split: option.splits)
  have "(case v of JStr text \<Rightarrow> Inr (Some text) | _ \<Rightarrow> Inl TypeError) = Inl TypeError"
    using v(3) by (cases v) (simp_all add: is_str_def)
  then show ?thesis using v(1,2) by (simp add: d ebind_def)
qed


lemma first_choice_raises:
  assumes "truthy c" and "\<not> (\<exists>first others. c = JArr (JObj first # others))"
  shows "\<exists>e. ebind (py_getitem0 c) (\<lambda>first. ebind (py_get first key dflt) f) = Inl e"
proof (cases c)
  case (JArr xs)
  then obtain v vs where xs: "xs = v # vs" using assms(1) by (cases xs) auto
  then have "\<forall>kvs. v \<noteq> JObj kvs" using assms(2) JArr by auto
  then have "py_get v key dflt = Inl AttributeError" by (rule py_get_not_obj)
  then show ?thesis by (simp add: JArr xs ebind_def)
next
  case (JStr chars)
  then obtain x xs where "chars = x # xs" using assms(1) by (cases chars) auto
  then show ?thesis by (simp add: JStr ebind_def)
qed (use assms in \<open>simp_all add: ebind_def\<close>)

lemma chunk_unshaped_raises:
  assumes "\<not> chunk_shaped j"
  shows "\<exists>e. chunk_content j = Inl e"
proof (cases j)
  case (JObj kvs)
  then obtain c where c: "map_of kvs (ustr ''choices'') = Some c" "truthy c" "\<not> choices_shaped c"
    using assms by (auto simp: chunk_shaped_def split: option.splits)
  have start: "chunk_content j =
      ebind (py_getitem0 c) (\<lambda>first.
        ebind (py_get first (ustr ''delta'') (JObj [])) (\<lambda>delta.
        ebind (py_get delta (ustr ''content'') (JStr [])) (\<lambda>content.
          if truthy content then
            (case content of JStr text \<Rightarrow> Inr (Some text) | _ \<Rightarrow> Inl TypeError)
          else Inr None)))"
    using c(1,2) by (simp add: JObj chunk_content_def has_choices_def ebind_def)
  show ?thesis
  proof (cases "\<exists>first others. c = JArr (JObj first # others)")
    case False
    show ?thesis
      unfolding start using c(2) False by (rule first_choice_raises)
  next
    case True
    then obtain first others where f: "c = JArr (JObj first # others)" by blast
    then obtain d where d: "map_of first (ustr ''delta'') = Some d" "\<not> delta_shaped d"
      using c(3) by (auto simp: choices_shaped_def split: option.splits)
    show ?thesis
      unfolding start using delta_unshaped_raises[OF d(2)] d(1)
      by (simp add: f ebind_def)
  qed
next
  case (JArr xs)
  then show ?thesis
    using assms by (simp add: chunk_shaped_def chunk_content_def has_choices_def ebind_def)
next
  case (JStr chars)
  then show ?thesis
    using assms by (simp add: chunk_shaped_def chunk_content_def has_choices_def ebind_def)
qed (simp_all add: chunk_content_def has_choices_def ebind_def)

lemma stream_loop_unshaped_line:
  assumes "\<not> line_shaped lib line"
  shows "\<exists>e. stream_loop lib (line # rest) full s = (Some e, full, s)"
proof (cases "payload_of lib line")
  case None
  then show ?thesis using assms by (simp add: line_shaped_def)
next
  case (Some r)
  show ?thesis
  proof (cases r)
    case (Inl e)
    then show ?thesis
      using Some assms by (simp add: line_shaped_def stream_loop_step del: stream_loop.simps)
  next
    case (Inr j)
    then have "\<not> chunk_shaped j" using Some assms by (simp add: line_shaped_def)
    then obtain e where "chunk_content j = Inl e" using chunk_unshaped_raises by blast
    then show ?thesis
      using Some Inr by (simp add: stream_loop_step del: stream_loop.simps)
  qed
qed

text \<open>
  C6, as amended. A line with no payload (a blank line, a line that is not UTF-8 text, a
  line without the marker \<^verbatim>\<open>data: \<close>) and a line on whose payload the parser raises
  \<^verbatim>\<open>JSONDecodeError\<close> are skipped, and decoding goes on with the next line. For every finite
  sequence of lines that can be read (the parser raises nothing but \<^verbatim>\<open>JSONDecodeError\<close>, and
  each parsed payload is one the loop reads without an exception), the decoder raises
  nothing and yields, in input order, exactly the values at \<^verbatim>\<open>choices[0].delta.content\<close>
  that are present and non-empty. On the three lines of the example it yields \<open>Hel\<close> and
  \<open>lo\<close>, and the assistant message of the turn is \<open>Hello\<close>.
\<close>

theorem stream_decoder_yields_content_deltas:
  \<open>(payload_of lib line = None \<or> payload_of lib line = Some (Inl JSONDecodeError) \<longrightarrow>
      stream_loop lib (line # rest) full s = stream_loop lib rest full s)
   \<and> ((\<forall>line \<in> set lines. line_shaped lib line) \<longrightarrow>
        stream_loop lib lines full s =
          (None, full @ concat (spec_decode lib lines),
           s\<lparr>effects := effects s @ map InsertText (spec_decode lib lines)\<rparr>))
   \<and> (json_loads lib (ustr ''{"choices":[{"delta":{"content":"Hel"}}]}'') = Inr (delta_chunk (ustr ''Hel''))
        \<and> json_loads lib (ustr ''{"choices":[{"delta":{"content":"lo"}}]}'') = Inr (delta_chunk (ustr ''lo''))
        \<and> json_loads lib (ustr ''[DONE]'') = Inl JSONDecodeError
        \<and> iter_lines resp = example_lines
      \<longrightarrow> spec_decode lib example_lines = [ustr ''Hel'', ustr ''lo'']
          \<and> stream_loop lib example_lines [] s =
               (None, ustr ''Hello'',
                s\<lparr>effects := effects s @ [InsertText (ustr ''Hel''), InsertText (ustr ''lo'')]\<rparr>)
          \<and> conversation_history (handle_stream_response lib resp s) =
               conversation_history s @ [\<lparr>role = Assistant, content = ustr ''Hello''\<rparr>])\<close>
proof -
  have skip: "payload_of lib line = None \<or> payload_of lib line = Some (Inl JSONDecodeError) \<longrightarrow>
      stream_loop lib (line # rest) full s = stream_loop lib rest full s"
    by (auto simp: stream_loop_step simp del: stream_loop.simps)
  show ?thesis
    using skip stream_loop_decodes[of lines lib full s] example_decodes(1)[of lib]
      example_finalized[of lib resp s]
    by blast
qed

text \<open>
  The claim as stated fails: a payload that parses to a number makes the membership test
  of line 504 raise \<^verbatim>\<open>TypeError\<close>, the loop is left, and the delta of the next line, which
  the policy of the specification yields, is never decoded.
\<close>

theorem stream_decoder_counterexample:
  "stream_loop sample_lib number_first_lines [] sample_session
     = (Some TypeError, [], sample_session)
   \<and> spec_decode sample_lib number_first_lines = [ustr ''Hel'']"
proof -
  have p: "payload_of sample_lib ''data: 5'' = Some (Inr (JInt 5))"
    \<open>payload_of sample_lib ''data: {"choices":[{"delta":{"content":"Hel"}}]}'' = Some (Inr (delta_chunk (ustr ''Hel'')))\<close>
    by (simp_all add: payload_of_ascii startswith_def sample_lib_def sample_loads_def
        sample_values_def ustr_def)
  have c: "chunk_content (JInt 5) = Inl TypeError"
    by (simp add: chunk_content_def has_choices_def ebind_def)
  have l: "spec_lookup (JInt 5) = None" by (simp add: spec_lookup_def)
  have ne: "ustr ''Hel'' \<noteq> []" by (simp add: ustr_def)
  have "stream_loop sample_lib number_first_lines [] sample_session
     = (Some TypeError, [], sample_session)"
    unfolding number_first_lines_def
    by (simp add: stream_loop_step p c del: stream_loop.simps)
  moreover have "spec_decode sample_lib number_first_lines = [ustr ''Hel'']"
    unfolding number_first_lines_def
    by (simp add: spec_decode_def spec_delta_def map_filter_simps p l spec_lookup_delta_chunk ne)
  ultimately show ?thesis by simp
qed

theorem stream_decoder_witness:
  "payload_of sample_lib ''data: not-json'' = Some (Inl JSONDecodeError)
   \<and> stream_loop sample_lib (''data: not-json'' # example_lines) [] sample_session
       = stream_loop sample_lib example_lines [] sample_session
   \<and> stream_loop sample_lib noisy_lines [] sample_session
       = (None, ustr ''Hello'',
          sample_session\<lparr>effects := [InsertText (ustr ''Hel''), InsertText (ustr ''lo'')]\<rparr>)
   \<and> conversation_history
       (handle_stream_response sample_lib
          \<lparr>status_code = 200, json_result = Inl (OtherException (ustr ''not read'')),
           iter_lines = example_lines, iter_failure = None\<rparr>
          sample_session)
       = conversation_history sample_session @ [\<lparr>role = Assistant, content = ustr ''Hello''\<rparr>]"
proof -
  let ?resp = "\<lparr>status_code = 200, json_result = Inl (OtherException (ustr ''not read'')),
           iter_lines = example_lines, iter_failure = None\<rparr>"
  note inst = stream_decoder_yields_content_deltas
    [of sample_lib "''data: not-json''" example_lines "[]" sample_session noisy_lines ?resp]
  have nj: "payload_of sample_lib ''data: not-json'' = Some (Inl JSONDecodeError)"
    by (simp add: payload_of_ascii startswith_def sample_lib_def sample_loads_def
        sample_values_def ustr_def)
  have p0: "payload_of sample_lib [] = None"
    by (simp add: payload_of_def)
  have p: "payload_of sample_lib '': keep-alive'' = None"
    \<open>payload_of sample_lib ''data: {"choices":[{"delta":{"content":"Hel"}}]}'' = Some (Inr (delta_chunk (ustr ''Hel'')))\<close>
    \<open>payload_of sample_lib ''data: {"choices":[{"delta":{"content":"lo"}}]}'' = Some (Inr (delta_chunk (ustr ''lo'')))\<close>
    "payload_of sample_lib ''data: [DONE]'' = Some (Inl JSONDecodeError)"
    by (simp_all add: payload_of_ascii startswith_def sample_lib_def sample_loads_def
        sample_values_def ustr_def)
  have shaped: "\<forall>line \<in> set noisy_lines. line_shaped sample_lib line"
    unfolding noisy_lines_def
    by (simp add: line_shaped_def p0 p nj chunk_shaped_delta_chunk)
  have ne: "ustr ''Hel'' \<noteq> []" "ustr ''lo'' \<noteq> []" by (simp_all add: ustr_def)
  have dec: "spec_decode sample_lib noisy_lines = [ustr ''Hel'', ustr ''lo'']"
    unfolding noisy_lines_def
    by (simp add: spec_decode_def spec_delta_def map_filter_simps p0 p nj spec_lookup_delta_chunk ne)
  have loads: \<open>json_loads sample_lib (ustr ''{"choices":[{"delta":{"content":"Hel"}}]}'') = Inr (delta_chunk (ustr ''Hel''))\<close>
    \<open>json_loads sample_lib (ustr ''{"choices":[{"delta":{"content":"lo"}}]}'') = Inr (delta_chunk (ustr ''lo''))\<close>
    \<open>json_loads sample_lib (ustr ''[DONE]'') = Inl JSONDecodeError\<close>
    by (simp_all add: sample_lib_def sample_loads_values)
  have eff: "effects sample_session = []" by (simp add: sample_session_def init_quiz_def)
  have cat: "ustr ''Hel'' @ ustr ''lo'' = ustr ''Hello''" by (simp add: ustr_def)
  show ?thesis
    using inst nj shaped loads by (simp add: dec eff cat)
qed

subsection \<open>The retry loop\<close>

lemma try_body_raises:
  "try_body lib (PostRaises e) s =
     (Some e, emit (HttpPost (build_request (config s) (conversation_history s))) s)"
  by (simp add: try_body_def)

lemma process_loop_done:
  "\<not> int retries < max_tries \<Longrightarrow> process_loop lib net max_tries retries s = emit (SendEnabled True) s"
  by (subst process_loop.simps) simp

lemma process_loop_transient:
  assumes "int retries < max_tries" and "transient (net retries)"
  shows "process_loop lib net max_tries retries s =
     process_loop lib net max_tries (retries + 1)
       (s\<lparr>effects := effects s @
            HttpPost (build_request (config s) (conversation_history s))
            # (if int (retries + 1) \<ge> max_tries then [ChatAppend (failure_text (net retries))] else [])
            @ [Sleep 1]\<rparr>)"
  using assms
  by (subst process_loop.simps)
     (auto simp: transient_def try_body_raises emit_def failure_text_def)

lemma process_loop_success:
  assumes "int retries < max_tries" and "try_body lib (net retries) s = (None, s')"
  shows "process_loop lib net max_tries retries s = emit (SendEnabled True) s'"
  using assms by (subst process_loop.simps) simp

lemma process_loop_unauthorized:
  assumes "int retries < max_tries" and "net retries = PostReturns resp"
    and "status_code resp = 401"
  shows "process_loop lib net max_tries retries s =
     s\<lparr>effects := effects s @
          [HttpPost (build_request (config s) (conversation_history s)),
           ChatAppendError (APIKeyError (ustr ''Invalid API key'')),
           SendEnabled True]\<rparr>"
  using assms by (subst process_loop.simps) (simp add: try_body_def emit_def)

lemma process_loop_skip_failures:
  assumes "\<forall>i. retries \<le> i \<and> i < k \<longrightarrow> transient (net i)"
    and "int k < max_tries" and "retries \<le> k"
  shows "process_loop lib net max_tries retries s =
     process_loop lib net max_tries k
       (s\<lparr>effects := effects s @
            concat (replicate (k - retries)
              [HttpPost (build_request (config s) (conversation_history s)), Sleep 1])\<rparr>)"
  using assms
proof (induction "k - retries" arbitrary: retries s)
  case 0
  then show ?case by simp
next
  case (Suc d)
  then have lt: "retries < k" and tr: "transient (net retries)" by auto
  then have now: "int retries < max_tries" and quiet: "\<not> int (retries + 1) \<ge> max_tries"
    using Suc.prems(2) by auto
  let ?req = "HttpPost (build_request (config s) (conversation_history s))"
  let ?s1 = "s\<lparr>effects := effects s @ [?req, Sleep 1]\<rparr>"
  have step: "process_loop lib net max_tries retries s =
      process_loop lib net max_tries (retries + 1) ?s1"
    using process_loop_transient[of retries max_tries net lib s] now tr quiet by simp
  have d: "d = k - (retries + 1)" using Suc.hyps(2) by simp
  have rest: "process_loop lib net max_tries (retries + 1) ?s1 =
      process_loop lib net max_tries k
        (?s1\<lparr>effects := effects ?s1 @
            concat (replicate (k - (retries + 1))
              [HttpPost (build_request (config ?s1) (conversation_history ?s1)), Sleep 1])\<rparr>)"
    using Suc.hyps(1)[OF d, of ?s1] Suc.prems lt by simp
  have count: "k - retries = Suc (k - (retries + 1))" using lt by simp
  show ?case unfolding step rest count by simp
qed


subsection \<open>Counting requests\<close>

lemma attempts_emit: "attempts (emit e s) = attempts s + (if is_post e then 1 else 0)"
  by (simp add: attempts_def emit_def)

lemma attempts_append_history: "attempts (append_history r text s) = attempts s"
  by (simp add: attempts_def append_history_def)

lemma attempts_stream_loop:
  "stream_loop lib lines full s = (raised, full', s') \<Longrightarrow> attempts s' = attempts s"
proof (induction lines arbitrary: full s)
  case Nil
  then show ?case by simp
next
  case (Cons line rest)
  then show ?case
    by (auto simp: attempts_emit is_post_def split: if_splits option.splits sum.splits)
qed

lemma attempts_handle_stream_response:
  "attempts (handle_stream_response lib resp s) = attempts s"
proof -
  obtain raised full s' where
    loop: "stream_loop lib (iter_lines resp) []
             (emit (ChatAppend (ustr ''<b>Quiz:</b> '')) (s\<lparr>is_streaming := True\<rparr>)) = (raised, full, s')"
    by (metis prod_cases3)
  have "attempts s' = attempts s"
    using attempts_stream_loop[OF loop] by (simp add: attempts_def emit_def is_post_def)
  then show ?thesis
    unfolding handle_stream_response_def Let_def loop
    by (simp add: attempts_def append_history_def emit_def is_post_def split: option.splits)
qed

lemma attempts_add_assistant_response:
  "attempts (add_assistant_response lib response s) = attempts s"
  by (simp add: add_assistant_response_def Let_def attempts_def emit_def append_history_def
      is_post_def)

lemma attempts_try_body: "attempts (snd (try_body lib outcome s)) = attempts s + 1"
  by (simp add: try_body_def Let_def attempts_handle_stream_response
      attempts_add_assistant_response attempts_emit is_post_def
      split: post_outcome.splits sum.splits json.splits)

lemma attempts_effects_append:
  "attempts (s\<lparr>effects := effects s @ ext\<rparr>) = attempts s + length (filter is_post ext)"
  by (simp add: attempts_def)

lemma posts_in_rounds:
  "length (filter is_post (concat (replicate k [HttpPost req, Sleep n]))) = k"
  by (induction k) (simp_all add: is_post_def)

subsection \<open>Runs of the loop\<close>

lemma all_attempts_fail:
  assumes "1 \<le> max_tries" and "\<forall>i. int i < max_tries \<longrightarrow> transient (net i)"
  shows "process_loop lib net max_tries 0 s =
     s\<lparr>effects := effects s @
          concat (replicate (nat max_tries - 1)
            [HttpPost (build_request (config s) (conversation_history s)), Sleep 1])
          @ [HttpPost (build_request (config s) (conversation_history s)),
             ChatAppend (failure_text (net (nat max_tries - 1))),
             Sleep 1,
             SendEnabled True]\<rparr>"
proof -
  let ?k = "nat max_tries - 1"
  let ?req = "HttpPost (build_request (config s) (conversation_history s))"
  let ?sk = "s\<lparr>effects := effects s @ concat (replicate ?k [?req, Sleep 1])\<rparr>"
  have k: "int ?k < max_tries" "max_tries \<le> int (?k + 1)" using assms(1) by auto
  have "process_loop lib net max_tries 0 s = process_loop lib net max_tries ?k ?sk"
    using process_loop_skip_failures[of 0 ?k net max_tries lib s] assms(2) k(1) by simp
  also have "\<dots> = process_loop lib net max_tries (?k + 1)
      (?sk\<lparr>effects := effects ?sk @ [?req, ChatAppend (failure_text (net ?k)), Sleep 1]\<rparr>)"
    using process_loop_transient[of ?k max_tries net lib ?sk] assms(2) k by simp
  also have "\<dots> = emit (SendEnabled True)
      (?sk\<lparr>effects := effects ?sk @ [?req, ChatAppend (failure_text (net ?k)), Sleep 1]\<rparr>)"
    using k(2) by (intro process_loop_done) simp
  finally show ?thesis by (simp add: emit_def)
qed

lemma success_after_failures:
  assumes "\<forall>i. i < k \<longrightarrow> transient (net i)" and "int k < max_tries"
    and "try_body lib (net k)
           (s\<lparr>effects := effects s @
                concat (replicate k
                  [HttpPost (build_request (config s) (conversation_history s)), Sleep 1])\<rparr>)
         = (None, s')"
  shows "process_loop lib net max_tries 0 s = emit (SendEnabled True) s'"
    and "attempts (process_loop lib net max_tries 0 s) = attempts s + k + 1"
proof -
  let ?req = "HttpPost (build_request (config s) (conversation_history s))"
  let ?sk = "s\<lparr>effects := effects s @ concat (replicate k [?req, Sleep 1])\<rparr>"
  have "process_loop lib net max_tries 0 s = process_loop lib net max_tries k ?sk"
    using process_loop_skip_failures[of 0 k net max_tries lib s] assms(1,2) by simp
  also have "\<dots> = emit (SendEnabled True) s'"
    using assms(2,3) by (rule process_loop_success)
  finally show res: "process_loop lib net max_tries 0 s = emit (SendEnabled True) s'" .
  have "attempts s' = attempts ?sk + 1"
    using attempts_try_body[of lib "net k" ?sk] assms(3) by simp
  also have "\<dots> = attempts s + k + 1"
    by (simp add: attempts_effects_append posts_in_rounds)
  finally show "attempts (process_loop lib net max_tries 0 s) = attempts s + k + 1"
    unfolding res by (simp add: attempts_emit is_post_def)
qed

lemma unauthorized_after_failures:
  assumes "\<forall>i. i < k \<longrightarrow> transient (net i)" and "int k < max_tries"
    and "net k = PostReturns resp" and "status_code resp = 401"
  shows "process_loop lib net max_tries 0 s =
     s\<lparr>effects := effects s @
          concat (replicate k
            [HttpPost (build_request (config s) (conversation_history s)), Sleep 1])
          @ [HttpPost (build_request (config s) (conversation_history s)),
             ChatAppendError (APIKeyError (ustr ''Invalid API key'')),
             SendEnabled True]\<rparr>"
proof -
  let ?req = "HttpPost (build_request (config s) (conversation_history s))"
  let ?sk = "s\<lparr>effects := effects s @ concat (replicate k [?req, Sleep 1])\<rparr>"
  have "process_loop lib net max_tries 0 s = process_loop lib net max_tries k ?sk"
    using process_loop_skip_failures[of 0 k net max_tries lib s] assms(1,2) by simp
  also have "\<dots> = ?sk\<lparr>effects := effects ?sk @
      [HttpPost (build_request (config ?sk) (conversation_history ?sk)),
       ChatAppendError (APIKeyError (ustr ''Invalid API key'')), SendEnabled True]\<rparr>"
    using assms(2,3,4) by (rule process_loop_unauthorized)
  finally show ?thesis by simp
qed


subsection \<open>Effects are only added\<close>

lemma stream_loop_effects:
  "stream_loop lib lines full s = (raised, full', s') \<Longrightarrow> \<exists>ext. effects s' = effects s @ ext"
proof (induction lines arbitrary: full s)
  case Nil
  then show ?case by simp
next
  case (Cons line rest)
  then show ?case
    by (fastforce simp: emit_def split: if_splits option.splits sum.splits)
qed

lemma handle_stream_response_effects_extend:
  "\<exists>ext. effects (handle_stream_response lib resp s) = effects s @ ext"
proof -
  obtain raised full s' where
    loop: "stream_loop lib (iter_lines resp) []
             (emit (ChatAppend (ustr ''<b>Quiz:</b> '')) (s\<lparr>is_streaming := True\<rparr>)) = (raised, full, s')"
    by (metis prod_cases3)
  obtain ext where "effects s' = effects s @ ChatAppend (ustr ''<b>Quiz:</b> '') # ext"
    using stream_loop_effects[OF loop] by (auto simp: emit_def)
  then show ?thesis
    using handle_stream_response_effects[OF loop] by simp
qed

lemma add_assistant_response_effects_extend:
  "\<exists>ext. effects (add_assistant_response lib response s) = effects s @ ext"
  by (simp add: add_assistant_response_def Let_def emit_def append_history_def)

lemma try_body_effects_extend:
  "\<exists>ext. effects (snd (try_body lib outcome s)) =
     effects s @ HttpPost (build_request (config s) (conversation_history s)) # ext"
proof -
  let ?s1 = "emit (HttpPost (build_request (config s) (conversation_history s))) s"
  have e1: "effects ?s1 = effects s @ [HttpPost (build_request (config s) (conversation_history s))]"
    by (simp add: emit_def)
  have a: "\<exists>ext. effects (handle_stream_response lib resp ?s1) = effects ?s1 @ ext" for resp
    by (rule handle_stream_response_effects_extend)
  have b: "\<exists>ext. effects (add_assistant_response lib r ?s1) = effects ?s1 @ ext" for r
    by (rule add_assistant_response_effects_extend)
  show ?thesis
    using a b unfolding e1
    by (auto simp: try_body_def Let_def emit_def
        split: post_outcome.splits sum.splits json.splits)
qed

lemma process_loop_effects_extend:
  "\<exists>ext. effects (process_loop lib net max_tries retries s) = effects s @ ext"
proof (induction lib net max_tries retries s rule: process_loop.induct)
  case (1 lib net max_tries retries s)
  show ?case
  proof (cases "int retries < max_tries")
    case False
    then show ?thesis by (simp add: process_loop_done emit_def)
  next
    case True
    obtain raised s1 where tb: "try_body lib (net retries) s = (raised, s1)" by fastforce
    obtain ext1 where e1: "effects s1 = effects s @ ext1"
      using try_body_effects_extend[of lib "net retries" s] tb by auto
    show ?thesis
    proof (cases raised)
      case None
      then show ?thesis
        using True tb e1 by (subst process_loop.simps) (simp add: emit_def)
    next
      case (Some e)
      show ?thesis
      proof (cases "e = RequestsConnectionError \<or> e = RequestsTimeout")
        case False
        then show ?thesis
          using True tb e1 Some
          by (subst process_loop.simps) (cases e; simp add: emit_def)
      next
        case retry: True
        let ?msg = "if e = RequestsTimeout then request_timed_out else connection_failed"
        let ?s2 = "emit (Sleep 1)
            (if int (retries + 1) \<ge> max_tries then emit (ChatAppend ?msg) s1 else s1)"
        have step: "process_loop lib net max_tries retries s =
            process_loop lib net max_tries (retries + 1) ?s2"
          using True tb Some retry by (subst process_loop.simps) auto
        have "\<exists>ext. effects (process_loop lib net max_tries (retries + 1) ?s2) = effects ?s2 @ ext"
        proof (cases "e = RequestsConnectionError")
          case True
          then show ?thesis
            using "1.IH"(1)[OF \<open>int retries < max_tries\<close> tb[symmetric] Some True refl]
            by (auto split: if_splits)
        next
          case False
          then have tmo: "e = RequestsTimeout" using retry by simp
          then show ?thesis
            using "1.IH"(2)[OF \<open>int retries < max_tries\<close> tb[symmetric] Some tmo refl]
            by (auto split: if_splits)
        qed
        moreover have "\<exists>ext. effects ?s2 = effects s @ ext"
          using e1 by (simp add: emit_def)
        ultimately show ?thesis unfolding step by fastforce
      qed
    qed
  qed
qed


lemma first_effect_is_request:
  assumes "1 \<le> get_or (cfg_max_retries (config s)) 3"
  shows "\<exists>ext. effects (process_response lib net s) =
     effects s @ HttpPost (build_request (config s) (conversation_history s)) # ext"
proof -
  let ?mx = "get_or (cfg_max_retries (config s)) 3"
  obtain raised s1 where tb: "try_body lib (net 0) s = (raised, s1)" by fastforce
  obtain ext1 where e1:
    "effects s1 = effects s @ HttpPost (build_request (config s) (conversation_history s)) # ext1"
    using try_body_effects_extend[of lib "net 0" s] tb by auto
  have "\<exists>ext. effects (process_loop lib net ?mx 0 s) = effects s1 @ ext"
  proof (cases raised)
    case None
    then show ?thesis using assms tb by (subst process_loop.simps) (simp add: emit_def)
  next
    case (Some e)
    show ?thesis
    proof (cases "e = RequestsConnectionError \<or> e = RequestsTimeout")
      case False
      then show ?thesis
        using assms tb Some by (subst process_loop.simps) (cases e; simp add: emit_def)
    next
      case True
      let ?msg = "if e = RequestsTimeout then request_timed_out else connection_failed"
      let ?s2 = "emit (Sleep 1) (if int (0 + 1) \<ge> ?mx then emit (ChatAppend ?msg) s1 else s1)"
      have step: "process_loop lib net ?mx 0 s = process_loop lib net ?mx (0 + 1) ?s2"
        using assms tb Some True by (subst process_loop.simps) auto
      obtain ext2 where "effects (process_loop lib net ?mx (0 + 1) ?s2) = effects ?s2 @ ext2"
        using process_loop_effects_extend by blast
      moreover have "\<exists>ext. effects ?s2 = effects s1 @ ext" by (simp add: emit_def)
      ultimately show ?thesis unfolding step by fastforce
    qed
  qed
  then show ?thesis unfolding process_response_def e1 by auto
qed

text \<open>
  C4. With \<open>max_retries = n\<close>, \<open>n \<ge> 1\<close>: when every request fails with a connection
  error or a timeout, the loop sends exactly \<open>n\<close> requests, pauses one second after each,
  writes the error of the last failure into the chat and stops; when the requests before
  the \<open>k\<close>-th (counted from 0, \<open>k < n\<close>) fail in that way and the \<open>k\<close>-th is handled without
  an exception, the dialog is the one that handling left, with the send button enabled
  again, after exactly \<open>k + 1\<close> requests.
\<close>

theorem retry_loop_attempts:
  assumes "get_or (cfg_max_retries (config s)) 3 = int n" and "1 \<le> n"
  shows "((\<forall>i<n. transient (net i)) \<longrightarrow>
            process_response lib net s =
              s\<lparr>effects := effects s @
                   concat (replicate (n - 1)
                     [HttpPost (build_request (config s) (conversation_history s)), Sleep 1])
                   @ [HttpPost (build_request (config s) (conversation_history s)),
                      ChatAppend (failure_text (net (n - 1))),
                      Sleep 1,
                      SendEnabled True]\<rparr>
            \<and> attempts (process_response lib net s) = attempts s + n)
       \<and> (\<forall>k s'. k < n \<and> (\<forall>i<k. transient (net i))
              \<and> try_body lib (net k)
                    (s\<lparr>effects := effects s @
                         concat (replicate k
                           [HttpPost (build_request (config s) (conversation_history s)), Sleep 1])\<rparr>)
                  = (None, s')
            \<longrightarrow> process_response lib net s = emit (SendEnabled True) s'
              \<and> attempts (process_response lib net s) = attempts s + k + 1)"
proof (intro conjI impI allI)
  assume all: "\<forall>i<n. transient (net i)"
  have res: "process_loop lib net (int n) 0 s =
      s\<lparr>effects := effects s @
           concat (replicate (nat (int n) - 1)
             [HttpPost (build_request (config s) (conversation_history s)), Sleep 1])
           @ [HttpPost (build_request (config s) (conversation_history s)),
              ChatAppend (failure_text (net (nat (int n) - 1))),
              Sleep 1,
              SendEnabled True]\<rparr>"
    using assms(2) all by (intro all_attempts_fail) auto
  then show r: "process_response lib net s =
      s\<lparr>effects := effects s @
           concat (replicate (n - 1)
             [HttpPost (build_request (config s) (conversation_history s)), Sleep 1])
           @ [HttpPost (build_request (config s) (conversation_history s)),
              ChatAppend (failure_text (net (n - 1))),
              Sleep 1,
              SendEnabled True]\<rparr>"
    by (simp add: process_response_def assms(1))
  show "attempts (process_response lib net s) = attempts s + n"
    unfolding r using assms(2)
    by (simp add: attempts_effects_append posts_in_rounds is_post_def)
next
  fix k s'
  assume h: "k < n \<and> (\<forall>i<k. transient (net i))
      \<and> try_body lib (net k)
            (s\<lparr>effects := effects s @
                 concat (replicate k
                   [HttpPost (build_request (config s) (conversation_history s)), Sleep 1])\<rparr>)
          = (None, s')"
  then have a: "\<forall>i. i < k \<longrightarrow> transient (net i)" and b: "int k < int n" by auto
  show "process_response lib net s = emit (SendEnabled True) s'"
    unfolding process_response_def assms(1)
    using success_after_failures(1)[OF a b] h by blast
  show "attempts (process_response lib net s) = attempts s + k + 1"
    unfolding process_response_def assms(1)
    using success_after_failures(2)[OF a b] h by blast
qed

text \<open>
  C5. Whatever \<open>max_retries\<close> allows, a response with status 401 ends the send at once:
  \<^verbatim>\<open>APIKeyError\<close> is written into the chat, the send button is enabled again, no request
  follows and the history is as it was. When the 401 answers the first request (\<open>k = 0\<close>)
  that request is the only one.
\<close>

theorem unauthorized_is_not_retried:
  assumes "get_or (cfg_max_retries (config s)) 3 = int n" and "k < n"
    and "\<forall>i<k. transient (net i)"
    and "net k = PostReturns resp" and "status_code resp = 401"
  shows "process_response lib net s =
           s\<lparr>effects := effects s @
                concat (replicate k
                  [HttpPost (build_request (config s) (conversation_history s)), Sleep 1])
                @ [HttpPost (build_request (config s) (conversation_history s)),
                   ChatAppendError (APIKeyError (ustr ''Invalid API key'')),
                   SendEnabled True]\<rparr>
         \<and> attempts (process_response lib net s) = attempts s + k + 1
         \<and> conversation_history (process_response lib net s) = conversation_history s"
proof -
  have a: "\<forall>i. i < k \<longrightarrow> transient (net i)" and b: "int k < int n"
    using assms(2,3) by auto
  have r: "process_response lib net s =
           s\<lparr>effects := effects s @
                concat (replicate k
                  [HttpPost (build_request (config s) (conversation_history s)), Sleep 1])
                @ [HttpPost (build_request (config s) (conversation_history s)),
                   ChatAppendError (APIKeyError (ustr ''Invalid API key'')),
                   SendEnabled True]\<rparr>"
    unfolding process_response_def assms(1)
    using a b assms(4,5) by (rule unauthorized_after_failures)
  show ?thesis
    unfolding r by (simp add: attempts_effects_append posts_in_rounds is_post_def)
qed

text \<open>
  C2, as amended. When the hosted provider is selected and no API key is configured (the
  key is absent or empty), nothing is raised: the request is the one of the local
  provider (the configured local URL, no \<open>Authorization\<close> header, the model
  \<open>local-model\<close>), and unless \<open>max_retries\<close> is below 1 it is sent.
\<close>

theorem hosted_without_key_uses_local_request:
  assumes "get_or (cfg_use_openai cfg) False" and "get_or (cfg_openai_api_key cfg) [] = []"
  shows "build_request cfg history =
           \<lparr>url = get_or (cfg_llm_studio_url cfg) (ustr ''http://localhost:1234/v1/chat/completions''),
            headers = [(ustr ''Content-Type'', ustr ''application/json'')],
            body_model = ustr ''local-model'',
            body_messages = history,
            body_temperature = 0.5,
            body_max_tokens = 150,
            body_stream = get_or (cfg_stream_responses cfg) True,
            opt_stream = get_or (cfg_stream_responses cfg) True,
            opt_timeout = get_or (cfg_timeout cfg) 30\<rparr>
         \<and> (config s = cfg \<and> 1 \<le> get_or (cfg_max_retries cfg) 3 \<longrightarrow>
              (\<exists>ext. effects (process_response lib net s) =
                 effects s @ HttpPost (build_request cfg (conversation_history s)) # ext))"
  using assms first_effect_is_request[of s lib net]
  by (auto simp: build_request_def Let_def)


subsection \<open>The examples\<close>

lemma sample_lib_loads:
  \<open>json_loads sample_lib (ustr ''{"choices":[{"delta":{"content":"Hel"}}]}'') = Inr (delta_chunk (ustr ''Hel''))\<close>
  \<open>json_loads sample_lib (ustr ''{"choices":[{"delta":{"content":"lo"}}]}'') = Inr (delta_chunk (ustr ''lo''))\<close>
  \<open>json_loads sample_lib (ustr ''[DONE]'') = Inl JSONDecodeError\<close>
  by (simp_all add: sample_lib_def sample_loads_values)

lemma example_stream_handled:
  "handle_stream_response sample_lib example_stream s =
     s\<lparr>conversation_history :=
          conversation_history s @ [\<lparr>role = Assistant, content = ustr ''Hello''\<rparr>],
        is_streaming := False,
        effects := effects s @
          [ChatAppend (ustr ''<b>Quiz:</b> ''), InsertText (ustr ''Hel''), InsertText (ustr ''lo'')]\<rparr>"
proof -
  have l: "iter_lines example_stream = example_lines" "iter_failure example_stream = None"
    by (simp_all add: example_stream_def)
  have ne: "ustr ''Hello'' \<noteq> []" by (simp add: ustr_def)
  show ?thesis
    unfolding handle_stream_response_def Let_def l
      example_finalized(1)[OF sample_lib_loads l(1)]
    by (simp add: clean_hello ne append_history_def emit_def)
qed

lemma try_body_example_stream:
  assumes "get_or (cfg_stream_responses (config s)) True"
  shows "try_body sample_lib (PostReturns example_stream) s =
     (None,
      s\<lparr>conversation_history :=
           conversation_history s @ [\<lparr>role = Assistant, content = ustr ''Hello''\<rparr>],
         is_streaming := False,
         effects := effects s @
           [HttpPost (build_request (config s) (conversation_history s)),
            ChatAppend (ustr ''<b>Quiz:</b> ''), InsertText (ustr ''Hel''), InsertText (ustr ''lo'')]\<rparr>)"
  using assms
  by (simp add: try_body_def Let_def example_stream_handled emit_def)
     (simp add: example_stream_def)

theorem retry_loop_attempts_witness:
  "process_response sample_lib (\<lambda>i. PostRaises RequestsTimeout)
       (sample_session\<lparr>config := default_config\<lparr>cfg_max_retries := Some 2\<rparr>\<rparr>)
     = sample_session
         \<lparr>config := default_config\<lparr>cfg_max_retries := Some 2\<rparr>,
          effects :=
            [HttpPost (build_request (default_config\<lparr>cfg_max_retries := Some 2\<rparr>)
                         (conversation_history sample_session)),
             Sleep 1,
             HttpPost (build_request (default_config\<lparr>cfg_max_retries := Some 2\<rparr>)
                         (conversation_history sample_session)),
             ChatAppend request_timed_out,
             Sleep 1,
             SendEnabled True]\<rparr>
   \<and> attempts (process_response sample_lib
         (\<lambda>i. if i < 2 then PostRaises RequestsConnectionError else PostReturns example_stream)
         sample_session) = 3
   \<and> conversation_history (process_response sample_lib
         (\<lambda>i. if i < 2 then PostRaises RequestsConnectionError else PostReturns example_stream)
         sample_session)
     = conversation_history sample_session @ [\<lparr>role = Assistant, content = ustr ''Hello''\<rparr>]"
proof -
  let ?s2 = "sample_session\<lparr>config := default_config\<lparr>cfg_max_retries := Some 2\<rparr>\<rparr>"
  let ?timeouts = "\<lambda>i::nat. PostRaises RequestsTimeout"
  let ?net = "\<lambda>i::nat. if i < 2 then PostRaises RequestsConnectionError
                         else PostReturns example_stream"
  let ?req = "HttpPost (build_request (config sample_session) (conversation_history sample_session))"
  let ?sk = "sample_session\<lparr>effects := effects sample_session @
                concat (replicate 2 [?req, Sleep 1])\<rparr>"
  have n2: "get_or (cfg_max_retries (config ?s2)) 3 = int 2"
    by (simp add: get_or_def)
  have n3: "get_or (cfg_max_retries (config sample_session)) 3 = int 3"
    by (simp add: get_or_def sample_session_def init_quiz_def default_config_def)
  have eff: "effects sample_session = []" by (simp add: sample_session_def init_quiz_def)
  have a: "process_response sample_lib ?timeouts ?s2 =
      ?s2\<lparr>effects := effects ?s2 @
           concat (replicate (2 - 1)
             [HttpPost (build_request (config ?s2) (conversation_history ?s2)), Sleep 1])
           @ [HttpPost (build_request (config ?s2) (conversation_history ?s2)),
              ChatAppend (failure_text (?timeouts (2 - 1))),
              Sleep 1,
              SendEnabled True]\<rparr>"
    using retry_loop_attempts[OF n2, of ?timeouts sample_lib] by (simp add: transient_def)
  have stream: "get_or (cfg_stream_responses (config ?sk)) True"
    by (simp add: get_or_def sample_session_def init_quiz_def default_config_def)
  have tb: "try_body sample_lib (?net 2) ?sk =
      (None,
       ?sk\<lparr>conversation_history :=
             conversation_history ?sk @ [\<lparr>role = Assistant, content = ustr ''Hello''\<rparr>],
           is_streaming := False,
           effects := effects ?sk @
             [HttpPost (build_request (config ?sk) (conversation_history ?sk)),
              ChatAppend (ustr ''<b>Quiz:</b> ''), InsertText (ustr ''Hel''),
              InsertText (ustr ''lo'')]\<rparr>)"
    using try_body_example_stream[OF stream] by simp
  have tr: "\<forall>i<2. transient (?net i)" by (simp add: transient_def)
  have b: "process_response sample_lib ?net sample_session =
        emit (SendEnabled True)
          (?sk\<lparr>conversation_history :=
             conversation_history ?sk @ [\<lparr>role = Assistant, content = ustr ''Hello''\<rparr>],
           is_streaming := False,
           effects := effects ?sk @
             [HttpPost (build_request (config ?sk) (conversation_history ?sk)),
              ChatAppend (ustr ''<b>Quiz:</b> ''), InsertText (ustr ''Hel''),
              InsertText (ustr ''lo'')]\<rparr>)
      \<and> attempts (process_response sample_lib ?net sample_session)
          = attempts sample_session + 2 + 1"
  proof -
    have one: "1 \<le> (3::nat)" by simp
    have prem: "2 < (3::nat) \<and> (\<forall>i<2. transient (?net i))
        \<and> try_body sample_lib (?net 2) ?sk =
          (None,
           ?sk\<lparr>conversation_history :=
                 conversation_history ?sk @ [\<lparr>role = Assistant, content = ustr ''Hello''\<rparr>],
               is_streaming := False,
               effects := effects ?sk @
                 [HttpPost (build_request (config ?sk) (conversation_history ?sk)),
                  ChatAppend (ustr ''<b>Quiz:</b> ''), InsertText (ustr ''Hel''),
                  InsertText (ustr ''lo'')]\<rparr>)"
      using tr tb by simp
    show ?thesis
      by (rule retry_loop_attempts[OF n3 one, of ?net sample_lib, THEN conjunct2, rule_format,
            OF prem])
  qed
  have at: "attempts sample_session = 0" by (simp add: attempts_def eff)
  have a': "process_response sample_lib ?timeouts ?s2 =
      ?s2\<lparr>effects :=
           [HttpPost (build_request (default_config\<lparr>cfg_max_retries := Some 2\<rparr>)
                         (conversation_history sample_session)),
            Sleep 1,
            HttpPost (build_request (default_config\<lparr>cfg_max_retries := Some 2\<rparr>)
                         (conversation_history sample_session)),
            ChatAppend request_timed_out,
            Sleep 1,
            SendEnabled True]\<rparr>"
    unfolding a by (simp add: eff failure_text_def)
  have b1: "attempts (process_response sample_lib ?net sample_session) = 3"
    using b[THEN conjunct2] at by simp
  have b2: "conversation_history (process_response sample_lib ?net sample_session)
     = conversation_history sample_session @ [\<lparr>role = Assistant, content = ustr ''Hello''\<rparr>]"
    unfolding b[THEN conjunct1] by (simp add: emit_def)
  show ?thesis using a' b1 b2 by blast
qed

theorem unauthorized_is_not_retried_witness:
  "process_response sample_lib
       (\<lambda>i. PostReturns \<lparr>status_code = 401, json_result = Inr (JObj []), iter_lines = [],
                          iter_failure = None\<rparr>)
       sample_session
     = sample_session
         \<lparr>effects :=
            [HttpPost (build_request (config sample_session) (conversation_history sample_session)),
             ChatAppendError (APIKeyError (ustr ''Invalid API key'')),
             SendEnabled True]\<rparr>
   \<and> attempts (process_response sample_lib
       (\<lambda>i. PostReturns \<lparr>status_code = 401, json_result = Inr (JObj []), iter_lines = [],
                          iter_failure = None\<rparr>)
       sample_session) = 1"
proof -
  let ?resp = "\<lparr>status_code = 401, json_result = Inr (JObj []), iter_lines = [],
                 iter_failure = None\<rparr>"
  have n3: "get_or (cfg_max_retries (config sample_session)) 3 = int 3"
    by (simp add: get_or_def sample_session_def init_quiz_def default_config_def)
  have eff: "effects sample_session = []" by (simp add: sample_session_def init_quiz_def)
  have at: "attempts sample_session = 0" by (simp add: attempts_def eff)
  show ?thesis
    using unauthorized_is_not_retried[OF n3, of 0 "\<lambda>i. PostReturns ?resp" ?resp sample_lib]
    by (simp add: eff at attempts_def is_post_def)
qed

text \<open>
  The claim as stated fails: with the hosted provider selected and an empty key, the
  request goes to the local endpoint and the turn completes; no error of any kind is
  raised or shown.
\<close>

theorem hosted_without_key_counterexample:
  "get_or (cfg_use_openai (config hosted_without_key)) False
   \<and> get_or (cfg_openai_api_key (config hosted_without_key)) [] = []
   \<and> effects (process_response sample_lib (\<lambda>i. PostReturns example_stream) hosted_without_key)
     = [HttpPost
          \<lparr>url = ustr ''http://localhost:1234/v1/chat/completions'',
           headers = [(ustr ''Content-Type'', ustr ''application/json'')],
           body_model = ustr ''local-model'',
           body_messages = conversation_history sample_session,
           body_temperature = 0.5,
           body_max_tokens = 150,
           body_stream = True,
           opt_stream = True,
           opt_timeout = 30\<rparr>,
        ChatAppend (ustr ''<b>Quiz:</b> ''),
        InsertText (ustr ''Hel''),
        InsertText (ustr ''lo''),
        SendEnabled True]"
proof -
  have c: "config hosted_without_key =
      default_config\<lparr>cfg_use_openai := Some True, cfg_openai_api_key := Some []\<rparr>"
    and h: "conversation_history hosted_without_key = conversation_history sample_session"
    and eff: "effects hosted_without_key = []"
    by (simp_all add: hosted_without_key_def sample_session_def init_quiz_def)
  have stream: "get_or (cfg_stream_responses (config hosted_without_key)) True"
    by (simp add: c get_or_def default_config_def)
  have mx: "(0::int) < get_or (cfg_max_retries (config hosted_without_key)) 3"
    by (simp add: c get_or_def default_config_def)
  have req: "build_request (config hosted_without_key) (conversation_history hosted_without_key) =
      \<lparr>url = ustr ''http://localhost:1234/v1/chat/completions'',
       headers = [(ustr ''Content-Type'', ustr ''application/json'')],
       body_model = ustr ''local-model'',
       body_messages = conversation_history sample_session,
       body_temperature = 0.5,
       body_max_tokens = 150,
       body_stream = True,
       opt_stream = True,
       opt_timeout = 30\<rparr>"
    by (simp add: c h build_request_def get_or_def default_config_def)
  have "process_response sample_lib (\<lambda>i. PostReturns example_stream) hosted_without_key =
      emit (SendEnabled True)
        (hosted_without_key
           \<lparr>conversation_history :=
              conversation_history hosted_without_key
              @ [\<lparr>role = Assistant, content = ustr ''Hello''\<rparr>],
            is_streaming := False,
            effects := effects hosted_without_key @
              [HttpPost (build_request (config hosted_without_key)
                           (conversation_history hosted_without_key)),
               ChatAppend (ustr ''<b>Quiz:</b> ''), InsertText (ustr ''Hel''),
               InsertText (ustr ''lo'')]\<rparr>)"
    unfolding process_response_def
    using mx try_body_example_stream[OF stream]
    by (intro process_loop_success) simp_all
  then show ?thesis
    by (simp add: emit_def eff req) (simp add: c get_or_def)
qed

theorem hosted_without_key_witness:
  "build_request (config hosted_without_key) (conversation_history sample_session) =
      \<lparr>url = ustr ''http://localhost:1234/v1/chat/completions'',
       headers = [(ustr ''Content-Type'', ustr ''application/json'')],
       body_model = ustr ''local-model'',
       body_messages = conversation_history sample_session,
       body_temperature = 0.5,
       body_max_tokens = 150,
       body_stream = True,
       opt_stream = True,
       opt_timeout = 30\<rparr>
   \<and> (\<exists>ext. effects (process_response sample_lib (\<lambda>i. PostRaises RequestsTimeout)
                  hosted_without_key)
         = HttpPost (build_request (config hosted_without_key)
                       (conversation_history sample_session)) # ext)"
proof -
  have c: "config hosted_without_key =
      default_config\<lparr>cfg_use_openai := Some True, cfg_openai_api_key := Some []\<rparr>"
    and h: "conversation_history hosted_without_key = conversation_history sample_session"
    and eff: "effects hosted_without_key = []"
    by (simp_all add: hosted_without_key_def sample_session_def init_quiz_def)
  have use: "get_or (cfg_use_openai (config hosted_without_key)) False"
    and key: "get_or (cfg_openai_api_key (config hosted_without_key)) [] = []"
    and mx: "1 \<le> get_or (cfg_max_retries (config hosted_without_key)) 3"
    by (simp_all add: c get_or_def default_config_def)
  note inst = hosted_without_key_uses_local_request
    [OF use key, of "conversation_history sample_session" hosted_without_key sample_lib
       "\<lambda>i. PostRaises RequestsTimeout"]
  have vals: "get_or (cfg_llm_studio_url (config hosted_without_key))
        (ustr ''http://localhost:1234/v1/chat/completions'')
      = ustr ''http://localhost:1234/v1/chat/completions''"
    "get_or (cfg_stream_responses (config hosted_without_key)) True = True"
    "get_or (cfg_timeout (config hosted_without_key)) 30 = 30"
    by (simp_all add: c get_or_def default_config_def)
  have r: "build_request (config hosted_without_key) (conversation_history sample_session) =
      \<lparr>url = ustr ''http://localhost:1234/v1/chat/completions'',
       headers = [(ustr ''Content-Type'', ustr ''application/json'')],
       body_model = ustr ''local-model'',
       body_messages = conversation_history sample_session,
       body_temperature = 0.5,
       body_max_tokens = 150,
       body_stream = True,
       opt_stream = True,
       opt_timeout = 30\<rparr>"
    using inst unfolding vals by (rule conjunct1)
  have e: "\<exists>ext. effects (process_response sample_lib (\<lambda>i. PostRaises RequestsTimeout)
                  hosted_without_key)
         = HttpPost (build_request (config hosted_without_key)
                       (conversation_history sample_session)) # ext"
    using inst[THEN conjunct2] mx unfolding h eff by simp
  show ?thesis using r e by (rule conjI)
qed

subsection \<open>The system prompt\<close>

lemma basic_prompt_nonempty: "basic_prompt q a \<noteq> []"
  by (simp add: basic_prompt_def)

lemma basic_prompt_contains:
  "str_contains q (basic_prompt q a)" "str_contains a (basic_prompt q a)"
proof -
  have "basic_prompt q a = (ustr ''The user is answering: '' @ [chr_apos]) @ q
      @ ([chr_apos] @ ustr ''. Correct answer: '' @ [chr_apos] @ a @ [chr_apos]
         @ ustr ''. Evaluate their response.'')"
    by (simp add: basic_prompt_def)
  then show "str_contains q (basic_prompt q a)"
    unfolding str_contains_def sublist_def by blast
  have "basic_prompt q a = (ustr ''The user is answering: '' @ [chr_apos] @ q @ [chr_apos]
      @ ustr ''. Correct answer: '' @ [chr_apos]) @ a
      @ ([chr_apos] @ ustr ''. Evaluate their response.'')"
    by (simp add: basic_prompt_def)
  then show "str_contains a (basic_prompt q a)"
    unfolding str_contains_def sublist_def by blast
qed

lemma display_question_key_error:
  assumes "py_format lib (get_or (cfg_system_prompt (config s)) default_prompt)
             (question s) (answer s) = FormatKeyError k"
  shows "display_question lib s =
     (None,
      s\<lparr>conversation_history :=
           [\<lparr>role = System, content = basic_prompt (question s) (answer s)\<rparr>],
         quiz_completed := False,
         effects := effects s @
           [ChatClear, ShowInfoMissingKey k,
            ChatAppend (ustr ''<b>Quiz:</b> Question: '' @ question s)]\<rparr>)"
  using assms by (simp add: display_question_def Let_def seed_history_def emit_def)

lemma display_question_formatted:
  assumes "py_format lib (get_or (cfg_system_prompt (config s)) default_prompt)
             (question s) (answer s) = Formatted prompt"
  shows "display_question lib s =
     (None,
      s\<lparr>conversation_history := [\<lparr>role = System, content = prompt\<rparr>],
         quiz_completed := False,
         effects := effects s @
           [ChatClear, ChatAppend (ustr ''<b>Quiz:</b> Question: '' @ question s)]\<rparr>)"
  using assms by (simp add: display_question_def Let_def seed_history_def emit_def)

lemma display_question_propagates:
  assumes "py_format lib (get_or (cfg_system_prompt (config s)) default_prompt)
             (question s) (answer s) = FormatError e"
  shows "fst (display_question lib s) = Some e"
  using assms by (simp add: display_question_def Let_def emit_def)

lemma format_unknown_key:
  "py_format lib (ustr ''{topic}: {question}'') q a = FormatKeyError (ustr ''topic'')"
  by (simp add: py_format_def ustr_def chr_lbrace_def chr_rbrace_def ident_char_def)

lemma format_question_only:
  "py_format lib (ustr ''Ask about {question}.'') (ustr ''2+2?'') (ustr ''4'')
     = Formatted (ustr ''Ask about 2+2?.'')"
  by (simp add: py_format_def ustr_def chr_lbrace_def chr_rbrace_def ident_char_def)


text \<open>
  C8, as amended. When formatting the template raises \<^verbatim>\<open>KeyError\<close> (the template names a
  placeholder that is not supplied), \<open>display_question\<close> raises nothing: it tells the user
  which key is missing and seeds the history with one system message, the hardcoded
  prompt, which is not empty and contains both the question and the answer.
\<close>

theorem display_question_falls_back_on_key_error:
  assumes "py_format lib (get_or (cfg_system_prompt (config s)) default_prompt)
             (question s) (answer s) = FormatKeyError k"
  shows "display_question lib s =
           (None,
            s\<lparr>conversation_history :=
                 [\<lparr>role = System, content = basic_prompt (question s) (answer s)\<rparr>],
               quiz_completed := False,
               effects := effects s @
                 [ChatClear, ShowInfoMissingKey k,
                  ChatAppend (ustr ''<b>Quiz:</b> Question: '' @ question s)]\<rparr>)
         \<and> basic_prompt (question s) (answer s) \<noteq> []
         \<and> str_contains (question s) (basic_prompt (question s) (answer s))
         \<and> str_contains (answer s) (basic_prompt (question s) (answer s))"
  using display_question_key_error[OF assms] basic_prompt_nonempty basic_prompt_contains
  by simp

text \<open>
  The claim as stated fails: a template without the answer placeholder formats without
  an error, so there is no fallback, and the system message does not contain the answer.
\<close>

theorem display_question_counterexample:
  "display_question sample_lib
     (init_quiz (default_config\<lparr>cfg_system_prompt := Some (ustr ''Ask about {question}.'')\<rparr>)
        (ustr ''2+2?'') (ustr ''4''))
   = (None,
      (init_quiz (default_config\<lparr>cfg_system_prompt := Some (ustr ''Ask about {question}.'')\<rparr>)
         (ustr ''2+2?'') (ustr ''4''))
        \<lparr>conversation_history := [\<lparr>role = System, content = ustr ''Ask about 2+2?.''\<rparr>],
         effects := [ChatClear, ChatAppend (ustr ''<b>Quiz:</b> Question: 2+2?'')]\<rparr>)
   \<and> \<not> str_contains (ustr ''4'') (ustr ''Ask about 2+2?.'')"
proof -
  let ?s = "init_quiz (default_config\<lparr>cfg_system_prompt := Some (ustr ''Ask about {question}.'')\<rparr>)
        (ustr ''2+2?'') (ustr ''4'')"
  have f: "py_format sample_lib (get_or (cfg_system_prompt (config ?s)) default_prompt)
             (question ?s) (answer ?s) = Formatted (ustr ''Ask about 2+2?.'')"
    by (simp add: init_quiz_def get_or_def format_question_only)
  have "\<not> sublist (ustr ''4'') (ustr ''Ask about 2+2?.'')"
    by (simp add: ustr_def sublist_Cons_right)
  then show ?thesis
    unfolding display_question_formatted[OF f]
    by (simp add: init_quiz_def str_contains_def) (simp add: ustr_def)
qed

theorem display_question_witness:
  "display_question sample_lib
     (init_quiz (default_config\<lparr>cfg_system_prompt := Some (ustr ''{topic}: {question}'')\<rparr>)
        (ustr ''2+2?'') (ustr ''4''))
   = (None,
      (init_quiz (default_config\<lparr>cfg_system_prompt := Some (ustr ''{topic}: {question}'')\<rparr>)
         (ustr ''2+2?'') (ustr ''4''))
        \<lparr>conversation_history :=
           [\<lparr>role = System, content = basic_prompt (ustr ''2+2?'') (ustr ''4'')\<rparr>],
         effects := [ChatClear, ShowInfoMissingKey (ustr ''topic''),
                     ChatAppend (ustr ''<b>Quiz:</b> Question: 2+2?'')]\<rparr>)
   \<and> str_contains (ustr ''2+2?'') (basic_prompt (ustr ''2+2?'') (ustr ''4''))
   \<and> str_contains (ustr ''4'') (basic_prompt (ustr ''2+2?'') (ustr ''4''))"
proof -
  let ?s = "init_quiz (default_config\<lparr>cfg_system_prompt := Some (ustr ''{topic}: {question}'')\<rparr>)
        (ustr ''2+2?'') (ustr ''4'')"
  have f: "py_format sample_lib (get_or (cfg_system_prompt (config ?s)) default_prompt)
             (question ?s) (answer ?s) = FormatKeyError (ustr ''topic'')"
    by (simp add: init_quiz_def get_or_def format_unknown_key)
  show ?thesis
    using display_question_falls_back_on_key_error[OF f]
    by (simp add: init_quiz_def) (simp add: ustr_def)
qed

subsection \<open>The history only grows by turns\<close>

lemma appends_turns_refl: "appends_turns s s"
  by (simp add: appends_turns_def)


lemma appends_turns_same_history:
  "conversation_history s' = conversation_history s \<Longrightarrow> appends_turns s s'"
  by (simp add: appends_turns_def)








subsection \<open>The invariant\<close>








end
